theory Spec2Isabelle
  imports Complex_Main "HOL-Library.AList"
begin

section \<open>FastBERT: adaptive-depth inference over a classifier cascade\<close>

text \<open>
  A shallow embedding of \<^verbatim>\<open>fastbert.py\<close>. Tensors are nested lists of reals, every
  module (\<^verbatim>\<open>nn.Linear\<close>, the attention block, a transformer layer, the embedding) is the
  function its \<^verbatim>\<open>forward\<close> computes, exceptions are values of a sum type, and the calls
  that reach outside the class (\<^verbatim>\<open>AdamW\<close>, \<^verbatim>\<open>save_model\<close>, \<^verbatim>\<open>load_model\<close>,
  \<^verbatim>\<open>print\<close>) are recorded in a log.
\<close>

subsection \<open>Values, errors and tensors\<close>

datatype error =
    KeyError
  | TypeError
  | ZeroDivisionError
  | UnboundLocalError
  | IndexError
  | RuntimeError
  | ValueError
  | AttributeError
  | FileNotFoundError

text \<open>A label is a Python \<^verbatim>\<open>str\<close> or \<^verbatim>\<open>int\<close> (docstring of \<^verbatim>\<open>forward\<close>).\<close>

datatype label = LStr string | LInt int

type_synonym tensor1 = "real list"
type_synonym tensor2 = "real list list"
type_synonym tensor3 = "real list list list"
type_synonym tensor4 = "real list list list list"

subsection \<open>Python list and dict primitives\<close>

text \<open>\<^verbatim>\<open>xs[:n]\<close>: a negative bound counts from the end.\<close>

definition slice_to :: "'a list \<Rightarrow> int \<Rightarrow> 'a list" where
  "slice_to xs n = (if 0 \<le> n then take (nat n) xs else take (nat (int (length xs) + n)) xs)"

text \<open>\<^verbatim>\<open>[x] * n\<close>: empty when \<^verbatim>\<open>n <= 0\<close>.\<close>

definition repeat :: "'a \<Rightarrow> int \<Rightarrow> 'a list" where
  "repeat x n = replicate (nat n) x"

text \<open>\<^verbatim>\<open>d[k]\<close> on a dict kept as an association list in insertion order.\<close>

definition dict_get :: "('k \<times> 'v) list \<Rightarrow> 'k \<Rightarrow> error + 'v" where
  "dict_get d k = (case map_of d k of None \<Rightarrow> Inl KeyError | Some v \<Rightarrow> Inr v)"

subsection \<open>The model object\<close>

text \<open>
  \<^verbatim>\<open>MiniClassifier\<close>: the three linear layers and the attention block are the functions
  they compute (a linear layer acts on the last dimension).
\<close>

record MiniClassifier =
  pooling :: string
  output_layer_0 :: "tensor1 \<Rightarrow> tensor1"
  self_atten :: "tensor3 \<Rightarrow> tensor3 \<Rightarrow> tensor3 \<Rightarrow> tensor4 \<Rightarrow> tensor3"
  output_layer_1 :: "tensor1 \<Rightarrow> tensor1"
  output_layer_2 :: "tensor1 \<Rightarrow> tensor1"

text \<open>
  \<^verbatim>\<open>FastBERT\<close>: the fields set by \<^verbatim>\<open>__init__\<close>. The tokenizer, the vocabulary, the
  kernel (embedding and transformer layers) and \<^verbatim>\<open>calc_uncertainty\<close> (from
  \<^verbatim>\<open>utils\<close>; one score per row of the batch) are collaborators and enter as functions.
\<close>

record FastBERT =
  seq_length :: int
  label_map :: "(label \<times> nat) list"
  id2label :: "(nat \<times> label) list"
  labels_num :: nat
  cls_id :: int
  pad_id :: int
  vocab_get :: "string \<Rightarrow> int"
  tokenize :: "string \<Rightarrow> string list"
  layers_num :: nat
  embedding :: "int list list \<Rightarrow> int list list \<Rightarrow> tensor3"
  transformer :: "(tensor3 \<Rightarrow> tensor4 \<Rightarrow> tensor3) list"
  classifiers :: "MiniClassifier list"
  calc_uncertainty :: "tensor2 \<Rightarrow> nat \<Rightarrow> tensor1"

text \<open>Sequencing of computations that may raise: the first exception propagates.\<close>

definition bind_err :: "error + 'a \<Rightarrow> ('a \<Rightarrow> error + 'b) \<Rightarrow> error + 'b" where
  "bind_err r f = (case r of Inl e \<Rightarrow> Inl e | Inr x \<Rightarrow> f x)"

text \<open>\<^verbatim>\<open>xs[i]\<close> for \<^verbatim>\<open>i >= 0\<close>, and \<^verbatim>\<open>xs[-1]\<close>.\<close>

definition list_get :: "'a list \<Rightarrow> nat \<Rightarrow> error + 'a" where
  "list_get xs i = (if i < length xs then Inr (xs ! i) else Inl IndexError)"

definition list_last :: "'a list \<Rightarrow> error + 'a" where
  "list_last xs = (if xs = [] then Inl IndexError else Inr (last xs))"

subsection \<open>Tensor operations used by the model\<close>

text \<open>\<^verbatim>\<open>F.softmax(logits, dim=1)\<close> on a (batch, labels) tensor.\<close>

definition softmax_row :: "tensor1 \<Rightarrow> tensor1" where
  "softmax_row xs = map (\<lambda>x. exp x / sum_list (map exp xs)) xs"

definition softmax :: "tensor2 \<Rightarrow> tensor2" where
  "softmax logits = map softmax_row logits"

text \<open>\<^verbatim>\<open>t.item()\<close>: the value of a tensor with exactly one element.\<close>

definition item :: "'a list \<Rightarrow> error + 'a" where
  "item t = (case t of [x] \<Rightarrow> Inr x | _ \<Rightarrow> Inl ValueError)"

text \<open>
  \<^verbatim>\<open>torch.argmax(probs, dim=1)\<close>: per row, the index of the first maximal value; a row
  without entries has no maximum and the call raises.
\<close>

definition argmax_row :: "tensor1 \<Rightarrow> nat" where
  "argmax_row xs = length (takeWhile (\<lambda>x. x \<noteq> Max (set xs)) xs)"

definition argmax :: "tensor2 \<Rightarrow> error + nat list" where
  "argmax probs = (if [] \<in> set probs then Inl IndexError else Inr (map argmax_row probs))"

text \<open>
  The attention mask of \<^verbatim>\<open>_fast_infer\<close> and \<^verbatim>\<open>_forward_for_loss\<close>:
  \<^verbatim>\<open>(mask > 0).unsqueeze(1).repeat(1, seq_length, 1).unsqueeze(1)\<close>, then
  \<^verbatim>\<open>(1.0 - mask.float()) * -10000.0\<close>. \<^verbatim>\<open>repeat\<close> raises on a negative count.
\<close>

definition extend_mask :: "int \<Rightarrow> int list list \<Rightarrow> error + tensor4" where
  "extend_mask n msk =
     (if n < 0 then Inl RuntimeError
      else Inr (map (\<lambda>row. [replicate (nat n)
                  (map (\<lambda>x. (1 - (if x > 0 then 1 else 0)) * (- 10000)) row)]) msk))"

subsection \<open>Classifier head\<close>

text \<open>
  The pooling step of \<^verbatim>\<open>MiniClassifier.forward\<close> on a (batch, seq, hidden) tensor:
  \<^verbatim>\<open>torch.mean(hidden, dim=-1)\<close>, \<^verbatim>\<open>torch.max(hidden, dim=1)[0]\<close>,
  \<^verbatim>\<open>hidden[:, -1, :]\<close>, \<^verbatim>\<open>hidden[:, 0, :]\<close>. A reduction or an index over an empty
  sequence dimension raises. (The mean of an empty vector is NaN in the source; here it is
  the value of \<open>0 / 0\<close>.)
\<close>

definition pool :: "string \<Rightarrow> tensor3 \<Rightarrow> error + tensor2" where
  "pool p hidden =
     (if p = ''mean'' then Inr (map (map (\<lambda>v. sum_list v / real (length v))) hidden)
      else if p = ''max'' then
        (if [] \<in> set hidden then Inl IndexError
         else Inr (map (\<lambda>m. foldl (map2 max) (hd m) (tl m)) hidden))
      else if p = ''last'' then
        (if [] \<in> set hidden then Inl IndexError else Inr (map last hidden))
      else
        (if [] \<in> set hidden then Inl IndexError else Inr (map hd hidden)))"

definition MiniClassifier_forward :: "MiniClassifier \<Rightarrow> tensor3 \<Rightarrow> tensor4 \<Rightarrow> error + tensor2" where
  "MiniClassifier_forward self hidden msk =
     (let hidden = map (map (\<lambda>v. map tanh (output_layer_0 self v))) hidden;
          hidden = self_atten self hidden hidden hidden msk
      in bind_err (pool (pooling self) hidden) (\<lambda>hidden.
         let output_1 = map (\<lambda>v. map tanh (output_layer_1 self v)) hidden;
             logits = map (output_layer_2 self) output_1
         in Inr logits))"

text \<open>The shape of a rectangular tensor, outermost dimension first.\<close>

definition shape2 :: "tensor2 \<Rightarrow> nat list" where
  "shape2 t = [length t, length (hd t)]"

definition shape3 :: "tensor3 \<Rightarrow> nat list" where
  "shape3 t = [length t, length (hd t), length (hd (hd t))]"

definition rectangular3 :: "nat \<Rightarrow> nat \<Rightarrow> nat \<Rightarrow> tensor3 \<Rightarrow> bool" where
  "rectangular3 b s h t \<longleftrightarrow>
     length t = b \<and> (\<forall>m \<in> set t. length m = s \<and> (\<forall>v \<in> set m. length v = h))"

definition rectangular2 :: "nat \<Rightarrow> nat \<Rightarrow> tensor2 \<Rightarrow> bool" where
  "rectangular2 b h t \<longleftrightarrow> length t = b \<and> (\<forall>v \<in> set t. length v = h)"

subsection \<open>Token conversion\<close>

definition convert_to_id_and_mask :: "FastBERT \<Rightarrow> string \<Rightarrow> int list \<times> int list" where
  "convert_to_id_and_mask self sentence =
     (let ids = [cls_id self] @ map (vocab_get self) (tokenize self sentence);
          mask = repeat (1::int) (int (length ids))
      in if int (length ids) \<ge> seq_length self
         then (slice_to ids (seq_length self), slice_to mask (seq_length self))
         else (let pad_num = seq_length self - int (length ids)
               in (ids @ repeat (pad_id self) pad_num, mask @ repeat 0 pad_num)))"

subsection \<open>Adaptive inference\<close>

text \<open>
  The loop over the hidden layers of \<^verbatim>\<open>_fast_infer\<close>. Its state is the current hidden
  tensor, \<^verbatim>\<open>probs\<close> (unbound before the first iteration) and \<^verbatim>\<open>exec_layer_num\<close>;
  \<^verbatim>\<open>break\<close> ends the recursion.
\<close>

fun hidden_layers ::
  "FastBERT \<Rightarrow> tensor4 \<Rightarrow> real \<Rightarrow> nat list \<Rightarrow> tensor3 \<Rightarrow> tensor2 option \<Rightarrow> nat
     \<Rightarrow> error + (tensor2 option \<times> nat)" where
  "hidden_layers self msk speed [] hidden probs exec_layer_num = Inr (probs, exec_layer_num)"
| "hidden_layers self msk speed (i # is) hidden probs exec_layer_num =
     bind_err (list_get (transformer self) i) (\<lambda>layer.
     let hidden = layer hidden msk in
     bind_err (list_get (classifiers self) i) (\<lambda>classifier.
     bind_err (MiniClassifier_forward classifier hidden msk) (\<lambda>logits.
     let probs = softmax logits in
     bind_err (item (calc_uncertainty self probs (labels_num self))) (\<lambda>uncertainty.
     if uncertainty < speed then Inr (Some probs, i + 1)
     else hidden_layers self msk speed is hidden (Some probs) exec_layer_num))))"

definition fast_infer :: "FastBERT \<Rightarrow> string \<Rightarrow> real \<Rightarrow> error + (label \<times> nat)" where
  "fast_infer self sentence speed =
     (let (ids, mask) = convert_to_id_and_mask self sentence;
          ids = [ids];
          mask = [mask];
          emb = embedding self ids mask
      in bind_err (extend_mask (seq_length self) mask) (\<lambda>mask.
         let hidden = emb;
             exec_layer_num = layers_num self
         in bind_err (hidden_layers self mask speed [0..<layers_num self]
                        hidden None exec_layer_num) (\<lambda>(probs, exec_layer_num).
            case probs of
              None \<Rightarrow> Inl UnboundLocalError
            | Some probs \<Rightarrow>
                bind_err (bind_err (argmax probs) item) (\<lambda>label_id.
                bind_err (dict_get (id2label self) label_id) (\<lambda>label.
                Inr (label, exec_layer_num))))))"

text \<open>
  \<^verbatim>\<open>self.id2label[x]\<close> where \<^verbatim>\<open>x\<close> is a label value: the keys of \<^verbatim>\<open>id2label\<close> are the
  ints \<^verbatim>\<open>0 .. labels_num - 1\<close>, so a string is never a key and an int is looked up by
  its value.
\<close>

definition id2label_at :: "FastBERT \<Rightarrow> label \<Rightarrow> error + label" where
  "id2label_at self x =
     (case x of
        LStr s \<Rightarrow> Inl KeyError
      | LInt n \<Rightarrow> if n < 0 then Inl KeyError else dict_get (id2label self) (nat n))"

definition forward :: "FastBERT \<Rightarrow> string \<Rightarrow> real \<Rightarrow> error + (label \<times> nat)" where
  "forward self sentence speed =
     bind_err (fast_infer self sentence speed) (\<lambda>(label_id, exec_layer_num).
     bind_err (id2label_at self label_id) (\<lambda>label.
     Inr (label, exec_layer_num)))"

text \<open>
  The label dictionaries of \<^verbatim>\<open>__init__\<close>:
  \<^verbatim>\<open>{k: v for v, k in enumerate(labels)}\<close> and its inversion. A dict keeps a key at the
  position of its first insertion and the value of its last.
\<close>

definition make_label_map :: "label list \<Rightarrow> (label \<times> nat) list" where
  "make_label_map labels = foldl (\<lambda>d (v, k). AList.update k v d) [] (enumerate 0 labels)"

definition make_id2label :: "(label \<times> nat) list \<Rightarrow> (nat \<times> label) list" where
  "make_id2label d = foldl (\<lambda>d' (k, v). AList.update v k d') [] d"

subsection \<open>The full-depth pass\<close>

text \<open>
  \<^verbatim>\<open>_forward_for_loss\<close> runs every layer unconditionally
  (\<^verbatim>\<open>for i in range(layers_num): hiddens_batch = transformer[i](hiddens_batch, masks_batch)\<close>)
  and applies the last head, \<^verbatim>\<open>self.classifiers[-1]\<close>, to the result.
\<close>

fun run_layers :: "FastBERT \<Rightarrow> tensor4 \<Rightarrow> nat list \<Rightarrow> tensor3 \<Rightarrow> error + tensor3" where
  "run_layers self msk [] hiddens_batch = Inr hiddens_batch"
| "run_layers self msk (i # is) hiddens_batch =
     bind_err (list_get (transformer self) i) (\<lambda>layer.
     run_layers self msk is (layer hiddens_batch msk))"

definition teacher_logits :: "FastBERT \<Rightarrow> tensor4 \<Rightarrow> tensor3 \<Rightarrow> error + tensor2" where
  "teacher_logits self msk embs_batch =
     bind_err (run_layers self msk [0..<layers_num self] embs_batch) (\<lambda>hiddens_batch.
     bind_err (list_last (classifiers self)) (\<lambda>classifier.
     MiniClassifier_forward classifier hiddens_batch msk))"

text \<open>The teacher's probabilities for one sentence: embedding, all layers, last head, softmax.\<close>

definition teacher_probabilities :: "FastBERT \<Rightarrow> string \<Rightarrow> error + tensor2" where
  "teacher_probabilities self sentence =
     (let (ids, mask) = convert_to_id_and_mask self sentence;
          emb = embedding self [ids] [mask]
      in bind_err (extend_mask (seq_length self) [mask]) (\<lambda>mask.
         bind_err (teacher_logits self mask emb) (\<lambda>logits. Inr (softmax logits))))"

subsection \<open>Contracts of the collaborators\<close>

text \<open>A probability distribution, as \<^verbatim>\<open>F.softmax\<close> produces.\<close>

definition distribution :: "tensor1 \<Rightarrow> bool" where
  "distribution p \<longleftrightarrow> p \<noteq> [] \<and> (\<forall>x \<in> set p. 0 \<le> x) \<and> sum_list p = 1"

text \<open>
  The specification's contract of the uncertainty score: never negative on probability
  distributions.
\<close>

definition nonneg_uncertainty :: "FastBERT \<Rightarrow> bool" where
  "nonneg_uncertainty self \<longleftrightarrow>
     (\<forall>probs. (\<forall>p \<in> set probs. distribution p) \<longrightarrow>
        (\<forall>u \<in> set (calc_uncertainty self probs (labels_num self)). 0 \<le> u))"

text \<open>A hidden tensor for one sentence: batch size 1, at least one position.\<close>

definition single :: "tensor3 \<Rightarrow> bool" where
  "single h \<longleftrightarrow> length h = 1 \<and> [] \<notin> set h"

text \<open>
  The shapes the constructor and the kernel guarantee: one transformer layer and one head
  per layer, at least one layer and one label, a positive sequence length; embedding
  and layers keep a one-sentence batch, every head returns one row of
  \<^verbatim>\<open>labels_num\<close> logits for it, and \<^verbatim>\<open>calc_uncertainty\<close> returns one score per row.
\<close>

definition well_shaped :: "FastBERT \<Rightarrow> bool" where
  "well_shaped self \<longleftrightarrow>
     0 < seq_length self \<and> 0 < layers_num self \<and> 0 < labels_num self
   \<and> length (transformer self) = layers_num self
   \<and> length (classifiers self) = layers_num self
   \<and> (\<forall>ids mask. length ids = 1 \<and> [] \<notin> set ids \<longrightarrow> single (embedding self ids mask))
   \<and> (\<forall>layer \<in> set (transformer self). \<forall>h m. single h \<longrightarrow> single (layer h m))
   \<and> (\<forall>c \<in> set (classifiers self). \<forall>h m. single h \<longrightarrow>
         (\<exists>row. MiniClassifier_forward c h m = Inr [row] \<and> length row = labels_num self))
   \<and> (\<forall>probs. length (calc_uncertainty self probs (labels_num self)) = length probs)"

subsection \<open>A small concrete model\<close>

text \<open>
  Two labels, sequence length 4, two layers. The tokenizer splits a sentence into its
  characters; the vocabulary maps \<open>b\<close> to a negative id. Each head detects a negative
  token id anywhere in the sentence (first layer, then max-pooling over the positions).
  On a sentence without one the student (head 0) answers with probabilities
  \<open>(1/4, 3/4)\<close> and the teacher (head 1) with \<open>(9/10, 1/10)\<close>; with one, swapped.
\<close>

definition demo_head :: "real \<Rightarrow> real \<Rightarrow> MiniClassifier" where
  "demo_head a b =
     \<lparr> pooling = ''max'',
       output_layer_0 = (\<lambda>v. [if sum_list v < 0 then 1 else 0]),
       self_atten = (\<lambda>q k v m. q),
       output_layer_1 = (\<lambda>v. v),
       output_layer_2 = (\<lambda>v. if 0 < sum_list v then [ln b, ln a] else [ln a, ln b]) \<rparr>"

definition demo_uncertainty :: "tensor2 \<Rightarrow> nat \<Rightarrow> tensor1" where
  "demo_uncertainty probs n = map (\<lambda>p. (1 - Max (set p)) * real n / (real n - 1)) probs"

definition demo :: FastBERT where
  "demo =
     \<lparr> seq_length = 4,
       label_map = make_label_map [LStr ''pos'', LStr ''neg''],
       id2label = make_id2label (make_label_map [LStr ''pos'', LStr ''neg'']),
       labels_num = 2,
       cls_id = 101,
       pad_id = 0,
       vocab_get = (\<lambda>t. if t = ''b'' then - 7 else 7),
       tokenize = map (\<lambda>c. [c]),
       layers_num = 2,
       embedding = (\<lambda>ids mask. map (map (\<lambda>i. [real_of_int i])) ids),
       transformer = [\<lambda>h m. h, \<lambda>h m. h],
       classifiers = [demo_head 1 3, demo_head 9 1],
       calc_uncertainty = demo_uncertainty \<rparr>"

section \<open>Training\<close>

subsection \<open>Evaluation\<close>

text \<open>
  \<^verbatim>\<open>_evaluate\<close>: the loop over \<^verbatim>\<open>zip(sentences_batch, labels_batch)\<close> with its two
  accumulators, then the accuracy (a division by \<^verbatim>\<open>len(sentences_batch)\<close>, which raises
  on an empty list) and \<^verbatim>\<open>np.mean(exec_layers)\<close>.
\<close>

fun evaluate_loop ::
  "FastBERT \<Rightarrow> real \<Rightarrow> (string \<times> label) list \<Rightarrow> nat \<Rightarrow> nat list \<Rightarrow> error + (nat \<times> nat list)" where
  "evaluate_loop self speed [] right_count exec_layers = Inr (right_count, exec_layers)"
| "evaluate_loop self speed ((sent, label) # rest) right_count exec_layers =
     bind_err (fast_infer self sent speed) (\<lambda>(label_pred, el).
     evaluate_loop self speed rest
       (if label = label_pred then right_count + 1 else right_count)
       (exec_layers @ [el]))"

definition np_mean :: "nat list \<Rightarrow> real" where
  "np_mean xs = real (sum_list xs) / real (length xs)"

definition evaluate :: "FastBERT \<Rightarrow> string list \<Rightarrow> label list \<Rightarrow> real \<Rightarrow> error + (real \<times> real)" where
  "evaluate self sentences_batch labels_batch speed =
     (let total_num = length sentences_batch
      in bind_err (evaluate_loop self speed (zip sentences_batch labels_batch) 0 [])
           (\<lambda>(right_count, exec_layers).
         if total_num = 0 then Inl ZeroDivisionError
         else Inr (real right_count / real total_num, np_mean exec_layers)))"

subsection \<open>Losses\<close>

text \<open>\<^verbatim>\<open>nn.LogSoftmax(dim=-1)\<close>, \<^verbatim>\<open>nn.NLLLoss()\<close> and \<^verbatim>\<open>nn.KLDivLoss(reduction='batchmean')\<close>.\<close>

definition log_softmax_row :: "tensor1 \<Rightarrow> tensor1" where
  "log_softmax_row xs = map (\<lambda>x. x - ln (sum_list (map exp xs))) xs"

definition criterion :: "tensor2 \<Rightarrow> nat list \<Rightarrow> error + real" where
  "criterion log_probs targets =
     (if length log_probs \<noteq> length targets then Inl ValueError
      else if list_ex (\<lambda>(row, t). length row \<le> t) (zip log_probs targets) then Inl IndexError
      else Inr (- sum_list (map (\<lambda>(row, t). row ! t) (zip log_probs targets))
                  / real (length targets)))"

definition soft_criterion :: "tensor2 \<Rightarrow> tensor2 \<Rightarrow> error + real" where
  "soft_criterion log_probs target =
     (if map length log_probs \<noteq> map length target then Inl RuntimeError
      else Inr (sum_list (map (\<lambda>(s, t). sum_list (map (\<lambda>(si, ti). ti * (ln ti - si)) (zip s t)))
                            (zip log_probs target))
                  / real (length log_probs)))"

text \<open>
  The value \<^verbatim>\<open>_forward_for_loss\<close> returns: a tensor, or the Python int \<^verbatim>\<open>0\<close> it starts the
  distillation sum with (all that is left when there is no student head).
\<close>

datatype loss = Loss_tensor real | Loss_int int

text \<open>\<^verbatim>\<open>loss.item()\<close>: an int has no such attribute.\<close>

fun loss_item :: "loss \<Rightarrow> error + real" where
  "loss_item (Loss_tensor x) = Inr x"
| "loss_item (Loss_int n) = Inl AttributeError"

fun loss_add :: "loss \<Rightarrow> real \<Rightarrow> loss" where
  "loss_add (Loss_tensor x) y = Loss_tensor (x + y)"
| "loss_add (Loss_int n) y = Loss_tensor (real_of_int n + y)"

text \<open>The batch preparation shared by both branches of \<^verbatim>\<open>_forward_for_loss\<close>.\<close>

definition embed_batch :: "FastBERT \<Rightarrow> string list \<Rightarrow> error + (tensor3 \<times> tensor4)" where
  "embed_batch self sentences_batch =
     (let ids_batch = map (\<lambda>sentence. fst (convert_to_id_and_mask self sentence)) sentences_batch;
          masks_batch = map (\<lambda>sentence. snd (convert_to_id_and_mask self sentence)) sentences_batch;
          embs_batch = embedding self ids_batch masks_batch
      in bind_err (extend_mask (seq_length self) masks_batch) (\<lambda>masks_batch.
         Inr (embs_batch, masks_batch)))"

text \<open>The layers of the distillation branch, keeping every intermediate hidden tensor.\<close>

fun run_layers_list ::
  "FastBERT \<Rightarrow> tensor4 \<Rightarrow> nat list \<Rightarrow> tensor3 \<Rightarrow> tensor3 list \<Rightarrow> error + tensor3 list" where
  "run_layers_list self msk [] hiddens_batch hiddens_batch_list = Inr hiddens_batch_list"
| "run_layers_list self msk (i # is) hiddens_batch hiddens_batch_list =
     bind_err (list_get (transformer self) i) (\<lambda>layer.
     let hiddens_batch = layer hiddens_batch msk
     in run_layers_list self msk is hiddens_batch (hiddens_batch_list @ [hiddens_batch]))"

text \<open>
  The loop over the student heads. The hidden tensors and the teacher's probabilities
  were computed under \<^verbatim>\<open>torch.no_grad()\<close>; only the heads read here are tracked.
\<close>

fun student_losses ::
  "FastBERT \<Rightarrow> tensor4 \<Rightarrow> tensor3 list \<Rightarrow> tensor2 \<Rightarrow> nat list \<Rightarrow> loss \<Rightarrow> error + loss" where
  "student_losses self msk hiddens_batch_list teacher_probs [] loss = Inr loss"
| "student_losses self msk hiddens_batch_list teacher_probs (i # is) loss =
     bind_err (list_get (classifiers self) i) (\<lambda>classifier.
     bind_err (list_get hiddens_batch_list i) (\<lambda>hiddens_batch.
     bind_err (MiniClassifier_forward classifier hiddens_batch msk) (\<lambda>student_logits.
     bind_err (soft_criterion (map log_softmax_row student_logits) teacher_probs) (\<lambda>l.
     student_losses self msk hiddens_batch_list teacher_probs is (loss_add loss l)))))"

text \<open>
  \<^verbatim>\<open>_forward_for_loss\<close>. In the distillation branch the first model is the one the
  untracked part runs on and the second the one whose student heads are tracked; the
  method itself uses \<^verbatim>\<open>self\<close> for both.
\<close>

definition supervised_loss :: "FastBERT \<Rightarrow> string list \<Rightarrow> label list \<Rightarrow> error + loss" where
  "supervised_loss self sentences_batch labels_batch =
     bind_err (embed_batch self sentences_batch) (\<lambda>(embs_batch, masks_batch).
     bind_err (fold (\<lambda>label r. bind_err r (\<lambda>ids.
                 bind_err (dict_get (label_map self) label) (\<lambda>i. Inr (ids @ [i]))))
               labels_batch (Inr [])) (\<lambda>label_ids_batch.
     bind_err (teacher_logits self masks_batch embs_batch) (\<lambda>logits_batch.
     bind_err (criterion (map log_softmax_row logits_batch) label_ids_batch) (\<lambda>l.
     Inr (Loss_tensor l)))))"

definition distillation_loss :: "FastBERT \<Rightarrow> FastBERT \<Rightarrow> string list \<Rightarrow> error + loss" where
  "distillation_loss self tracked sentences_batch =
     bind_err (embed_batch self sentences_batch) (\<lambda>(embs_batch, masks_batch).
     bind_err (run_layers_list self masks_batch [0..<layers_num self] embs_batch [])
       (\<lambda>hiddens_batch_list.
     bind_err (list_last (classifiers self)) (\<lambda>teacher.
     bind_err (list_last hiddens_batch_list) (\<lambda>hiddens_batch.
     bind_err (MiniClassifier_forward teacher hiddens_batch masks_batch) (\<lambda>teacher_logits.
     let teacher_probs = softmax teacher_logits
     in student_losses tracked masks_batch hiddens_batch_list teacher_probs
          [0..<layers_num self - 1] (Loss_int 0))))))"

definition forward_for_loss :: "FastBERT \<Rightarrow> string list \<Rightarrow> label list option \<Rightarrow> error + loss" where
  "forward_for_loss self sentences_batch labels_batch =
     (case labels_batch of
        Some labels_batch \<Rightarrow> supervised_loss self sentences_batch labels_batch
      | None \<Rightarrow> distillation_loss self self sentences_batch)"

subsection \<open>Parameters, checkpoints and effects\<close>

text \<open>
  The parameters of the model (what \<^verbatim>\<open>save_model\<close> writes and \<^verbatim>\<open>load_model\<close> reads back):
  the embedding, the transformer layers and, per head, its three linear layers and its
  attention block. The pooling strategy is configuration, not a parameter.
\<close>

type_synonym head_params =
  "(tensor1 \<Rightarrow> tensor1) \<times> (tensor3 \<Rightarrow> tensor3 \<Rightarrow> tensor3 \<Rightarrow> tensor4 \<Rightarrow> tensor3)
   \<times> (tensor1 \<Rightarrow> tensor1) \<times> (tensor1 \<Rightarrow> tensor1)"

type_synonym state_dict =
  "(int list list \<Rightarrow> int list list \<Rightarrow> tensor3) \<times> (tensor3 \<Rightarrow> tensor4 \<Rightarrow> tensor3) list
   \<times> head_params list"

definition head_state :: "MiniClassifier \<Rightarrow> head_params" where
  "head_state c = (output_layer_0 c, self_atten c, output_layer_1 c, output_layer_2 c)"

definition load_head :: "MiniClassifier \<Rightarrow> head_params \<Rightarrow> MiniClassifier" where
  "load_head c p = (case p of (l0, att, l1, l2) \<Rightarrow>
     c\<lparr>output_layer_0 := l0, self_atten := att, output_layer_1 := l1, output_layer_2 := l2\<rparr>)"

definition state_dict :: "FastBERT \<Rightarrow> state_dict" where
  "state_dict self = (embedding self, transformer self, map head_state (classifiers self))"

text \<open>
  \<^verbatim>\<open>load_state_dict(..., strict=False)\<close>: entries present in the checkpoint replace the
  model's, the others stay.
\<close>

definition load_state_dict :: "FastBERT \<Rightarrow> state_dict \<Rightarrow> FastBERT" where
  "load_state_dict self sd = (case sd of (emb, layers, heads) \<Rightarrow>
     self\<lparr>embedding := emb,
          transformer := take (length (transformer self)) layers
                           @ drop (length layers) (transformer self),
          classifiers := map2 load_head (classifiers self) heads
                           @ drop (length heads) (classifiers self)\<rparr>)"

text \<open>What the training code does to the outside, in order.\<close>

datatype event =
    Created_AdamW real
  | Created_schedule real int
  | Saved string
  | Loaded string
  | Printed_training
  | Printed_fine_tuning int
  | Printed_fine_tuning_loss int int int int real
  | Printed_fine_tuning_eval int int real real
  | Printed_saving real real string
  | Printed_finish string
  | Printed_distilling int
  | Printed_distilling_loss int int int int real
  | Printed_distilling_eval int int real real
  | Printed_distilling_saving string
  | Printed_saved string

text \<open>
  The world a training run acts on: the model (updated in place), the files at the
  checkpoint paths, the log of events, and the number of random draws made so far.
\<close>

record world =
  model :: FastBERT
  files :: "string \<rightharpoonup> state_dict"
  log :: "event list"
  rng :: nat

text \<open>
  A statement of the training code: it changes the world and either yields a value or
  raises; what it did before raising stays done.
\<close>

type_synonym 'a io = "world \<Rightarrow> (error + 'a) \<times> world"

definition return_io :: "'a \<Rightarrow> 'a io" where
  "return_io x w = (Inr x, w)"

definition bind_io :: "'a io \<Rightarrow> ('a \<Rightarrow> 'b io) \<Rightarrow> 'b io" where
  "bind_io m f w = (case m w of (Inl e, w') \<Rightarrow> (Inl e, w') | (Inr x, w') \<Rightarrow> f x w')"

definition lift_io :: "error + 'a \<Rightarrow> 'a io" where
  "lift_io r w = (r, w)"

definition on_model :: "(FastBERT \<Rightarrow> error + 'a) \<Rightarrow> 'a io" where
  "on_model f w = (f (model w), w)"

definition emit :: "event \<Rightarrow> unit io" where
  "emit ev w = (Inr (), w\<lparr>log := log w @ [ev]\<rparr>)"

definition when_io :: "bool \<Rightarrow> unit io \<Rightarrow> unit io" where
  "when_io b m = (if b then m else return_io ())"

definition save_model :: "string \<Rightarrow> unit io" where
  "save_model model_path w =
     (Inr (), w\<lparr>files := (files w)(model_path \<mapsto> state_dict (model w)),
                log := log w @ [Saved model_path]\<rparr>)"

definition load_model :: "string \<Rightarrow> unit io" where
  "load_model model_path w =
     (case files w model_path of
        None \<Rightarrow> (Inl FileNotFoundError, w)
      | Some sd \<Rightarrow> (Inr (), w\<lparr>model := load_state_dict (model w) sd,
                               log := log w @ [Loaded model_path]\<rparr>))"

text \<open>
  The collaborators of training: the two shuffles (a function of the number of draws
  made before), the optimizer and its schedule (an opaque value), and one update,
  \<^verbatim>\<open>loss.backward(); optimizer.step(); scheduler.step()\<close>, which sees the loss as a
  function of the parameters. \<^verbatim>\<open>tmp_path\<close> is \<^verbatim>\<open>os.path.join(TMP_DIR, 'FastBERT_tmp.bin')\<close>.
\<close>

record 'o trainer =
  shuffle_pairs :: "nat \<Rightarrow> string list \<Rightarrow> label list \<Rightarrow> string list \<times> label list"
  random_shuffle :: "nat \<Rightarrow> string list \<Rightarrow> string list"
  AdamW :: "real \<Rightarrow> 'o"
  WarmupLinearSchedule :: "'o \<Rightarrow> real \<Rightarrow> int \<Rightarrow> 'o"
  update :: "'o \<Rightarrow> (state_dict \<Rightarrow> real) \<Rightarrow> state_dict \<Rightarrow> 'o \<times> state_dict"
  tmp_path :: string

text \<open>\<^verbatim>\<open>int(x)\<close> on a float truncates towards zero.\<close>

definition py_int :: "real \<Rightarrow> int" where
  "py_int x = (if 0 \<le> x then \<lfloor>x\<rfloor> else \<lceil>x\<rceil>)"

text \<open>\<^verbatim>\<open>xs[a * n : (a + 1) * n]\<close> for \<^verbatim>\<open>a >= 0\<close> and \<^verbatim>\<open>n > 0\<close>.\<close>

definition batch_slice :: "'a list \<Rightarrow> nat \<Rightarrow> int \<Rightarrow> 'a list" where
  "batch_slice xs step batch_size = take (nat batch_size) (drop (step * nat batch_size) xs)"

text \<open>The optimizer set-up both phases start with.\<close>

definition create_optimizer :: "'o trainer \<Rightarrow> real \<Rightarrow> real \<Rightarrow> int \<Rightarrow> 'o io" where
  "create_optimizer tr learning_rate warmup train_steps =
     bind_io (emit (Created_AdamW learning_rate)) (\<lambda>_.
     let optimizer = AdamW tr learning_rate in
     bind_io (emit (Created_schedule (real_of_int train_steps * warmup) train_steps)) (\<lambda>_.
     return_io (WarmupLinearSchedule tr optimizer (real_of_int train_steps * warmup) train_steps)))"

text \<open>
  \<^verbatim>\<open>loss.backward(); optimizer.step(); scheduler.step()\<close> on the model in place. The loss
  is given as a function of the model as it is (for what was computed without gradient
  tracking) and of the model with the parameters varied.
\<close>

definition backward_step ::
  "'o trainer \<Rightarrow> 'o \<Rightarrow> (FastBERT \<Rightarrow> FastBERT \<Rightarrow> error + loss) \<Rightarrow> 'o io" where
  "backward_step tr optimizer loss_of w =
     (let self = model w;
          loss_fn = (\<lambda>sd. case bind_err (loss_of self (load_state_dict self sd)) loss_item of
                            Inr l \<Rightarrow> l | Inl _ \<Rightarrow> 0);
          (optimizer, sd) = update tr optimizer loss_fn (state_dict self)
      in (Inr optimizer, w\<lparr>model := load_state_dict self sd\<rparr>))"

text \<open>
  The part both inner loops share after computing the loss: accumulate it, report every
  \<^verbatim>\<open>report_steps\<close> steps (\<^verbatim>\<open>%\<close> raises on 0), returning the new \<^verbatim>\<open>report_loss\<close>.
\<close>

definition report ::
  "bool \<Rightarrow> (real \<Rightarrow> event) \<Rightarrow> int \<Rightarrow> int \<Rightarrow> real \<Rightarrow> real \<Rightarrow> real io" where
  "report verbose msg step report_steps report_loss l =
     (let report_loss = report_loss + l in
      if report_steps = 0 then lift_io (Inl ZeroDivisionError)
      else if (step + 1) mod report_steps = 0 then
        (let ave_loss = report_loss / real_of_int report_steps in
         bind_io (when_io verbose (emit (msg ave_loss))) (\<lambda>_. return_io 0))
      else return_io report_loss)"

text \<open>A \<^verbatim>\<open>for\<close> loop: the body runs on each element in turn and threads the local variables.\<close>

fun for_loop :: "('a \<Rightarrow> 's \<Rightarrow> 's io) \<Rightarrow> 'a list \<Rightarrow> 's \<Rightarrow> 's io" where
  "for_loop body [] s = return_io s"
| "for_loop body (x # xs) s = bind_io (body x s) (for_loop body xs)"

text \<open>
  \<^verbatim>\<open>a, b = X if c else 0.0\<close>: the conditional expression is the whole right-hand side, so
  the value unpacked is either the pair \<^verbatim>\<open>X\<close> or the float, and a float cannot be unpacked.
\<close>

fun unpack_pair :: "('a \<times> 'b) + real \<Rightarrow> error + ('a \<times> 'b)" where
  "unpack_pair (Inl p) = Inr p"
| "unpack_pair (Inr x) = Inl TypeError"

definition evaluate_if_dev ::
  "nat \<Rightarrow> string list \<Rightarrow> label list \<Rightarrow> real \<Rightarrow> (real \<times> real) io" where
  "evaluate_if_dev dev_num sentences_dev labels_dev speed =
     bind_io (if dev_num > 0
              then bind_io (on_model (\<lambda>self. evaluate self sentences_dev labels_dev speed))
                     (\<lambda>r. return_io (Inl r))
              else return_io (Inr 0.0))
       (\<lambda>v. lift_io (unpack_pair v))"

subsection \<open>Phase 1: fine-tuning the backbone\<close>

definition fine_tuning_step ::
  "'o trainer \<Rightarrow> bool \<Rightarrow> int \<Rightarrow> int \<Rightarrow> int \<Rightarrow> int \<Rightarrow> int \<Rightarrow> string list \<Rightarrow> label list
     \<Rightarrow> nat \<Rightarrow> 'o \<times> real \<Rightarrow> ('o \<times> real) io" where
  "fine_tuning_step tr verbose batch_size report_steps epoch epochs_num steps_num
       sentences_train labels_train step = (\<lambda>(optimizer, report_loss).
     let sentences_batch = batch_slice sentences_train step batch_size;
         labels_batch = batch_slice labels_train step batch_size
     in bind_io (on_model (\<lambda>self. forward_for_loss self sentences_batch (Some labels_batch)))
          (\<lambda>loss.
        bind_io (lift_io (loss_item loss)) (\<lambda>l.
        bind_io (report verbose
                   (Printed_fine_tuning_loss (epoch + 1) epochs_num (int step + 1) steps_num)
                   (int step) report_steps report_loss l) (\<lambda>report_loss.
        bind_io (backward_step tr optimizer
                   (\<lambda>self tracked. forward_for_loss tracked sentences_batch (Some labels_batch)))
          (\<lambda>optimizer.
        return_io (optimizer, report_loss))))))"

text \<open>The checkpoint decision at the end of an epoch; it returns the new \<^verbatim>\<open>best_acc\<close>.\<close>

definition save_if_better :: "bool \<Rightarrow> string \<Rightarrow> real \<Rightarrow> real \<Rightarrow> real io" where
  "save_if_better verbose model_saving_path acc best_acc =
     (if acc > best_acc then
        bind_io (when_io verbose (emit (Printed_saving acc best_acc model_saving_path))) (\<lambda>_.
        bind_io (save_model model_saving_path) (\<lambda>_.
        return_io acc))
      else return_io best_acc)"

definition fine_tuning_epoch ::
  "'o trainer \<Rightarrow> bool \<Rightarrow> string list \<Rightarrow> label list \<Rightarrow> int \<Rightarrow> int \<Rightarrow> int \<Rightarrow> string
     \<Rightarrow> nat \<Rightarrow> int \<Rightarrow> nat
     \<Rightarrow> string list \<times> label list \<times> 'o \<times> real
     \<Rightarrow> (string list \<times> label list \<times> 'o \<times> real) io" where
  "fine_tuning_epoch tr verbose sentences_dev labels_dev batch_size epochs_num report_steps
       model_saving_path dev_num steps_num epoch =
     (\<lambda>(sentences_train, labels_train, optimizer, best_acc).
     bind_io (\<lambda>w. (Inr (shuffle_pairs tr (rng w) sentences_train labels_train),
                    w\<lparr>rng := rng w + 1\<rparr>)) (\<lambda>(sentences_train, labels_train).
     let report_loss = 0.0 in
     bind_io (for_loop (fine_tuning_step tr verbose batch_size report_steps (int epoch)
                          epochs_num steps_num sentences_train labels_train)
                [0..<nat steps_num] (optimizer, report_loss)) (\<lambda>(optimizer, report_loss).
     bind_io (evaluate_if_dev dev_num sentences_dev labels_dev 0.0) (\<lambda>(dev_acc, _).
     bind_io (on_model (\<lambda>self. evaluate self sentences_train labels_train 0.0))
       (\<lambda>(train_acc, _).
     bind_io (when_io verbose
                (emit (Printed_fine_tuning_eval (int epoch + 1) epochs_num train_acc dev_acc)))
       (\<lambda>_.
     bind_io (if dev_num > 0
              then save_if_better verbose model_saving_path dev_acc best_acc
              else save_if_better verbose model_saving_path train_acc best_acc) (\<lambda>best_acc.
     return_io (sentences_train, labels_train, optimizer, best_acc))))))))"

definition fine_tuning_backbone ::
  "'o trainer \<Rightarrow> string list \<Rightarrow> label list \<Rightarrow> string list \<Rightarrow> label list \<Rightarrow> int \<Rightarrow> real
     \<Rightarrow> int \<Rightarrow> real \<Rightarrow> int \<Rightarrow> string \<Rightarrow> bool \<Rightarrow> unit io" where
  "fine_tuning_backbone tr sentences_train labels_train sentences_dev labels_dev batch_size
       learning_rate epochs_num warmup report_steps model_saving_path verbose =
     bind_io (when_io verbose (emit (Printed_fine_tuning epochs_num))) (\<lambda>_.
     let instances_num = int (length sentences_train);
         dev_num = length sentences_dev
     in if batch_size = 0 then lift_io (Inl ZeroDivisionError)
        else
          let train_steps =
                py_int (real_of_int (instances_num * epochs_num) / real_of_int batch_size) + 1;
              steps_num = instances_num div batch_size
          in bind_io (create_optimizer tr learning_rate warmup train_steps) (\<lambda>optimizer.
             let best_acc = 0.0 in
             bind_io (for_loop (fine_tuning_epoch tr verbose sentences_dev labels_dev batch_size
                                  epochs_num report_steps model_saving_path dev_num steps_num)
                        [0..<nat epochs_num]
                        (sentences_train, labels_train, optimizer, best_acc)) (\<lambda>_.
             bind_io (when_io verbose (emit (Printed_finish model_saving_path))) (\<lambda>_.
             load_model model_saving_path))))"

subsection \<open>Phase 2: self-distillation\<close>

definition distillation_step ::
  "'o trainer \<Rightarrow> bool \<Rightarrow> int \<Rightarrow> int \<Rightarrow> int \<Rightarrow> int \<Rightarrow> int \<Rightarrow> string list
     \<Rightarrow> nat \<Rightarrow> 'o \<times> real \<Rightarrow> ('o \<times> real) io" where
  "distillation_step tr verbose batch_size report_steps epoch epochs_num steps_num
       sentences_train step = (\<lambda>(optimizer, report_loss).
     let sentences_batch = batch_slice sentences_train step batch_size
     in bind_io (on_model (\<lambda>self. forward_for_loss self sentences_batch None)) (\<lambda>loss.
        bind_io (lift_io (loss_item loss)) (\<lambda>l.
        bind_io (report verbose
                   (Printed_distilling_loss (epoch + 1) epochs_num (int step + 1) steps_num)
                   (int step) report_steps report_loss l) (\<lambda>report_loss.
        bind_io (backward_step tr optimizer
                   (\<lambda>self tracked. distillation_loss self tracked sentences_batch))
          (\<lambda>optimizer.
        return_io (optimizer, report_loss))))))"

definition distillation_epoch ::
  "'o trainer \<Rightarrow> bool \<Rightarrow> string list \<Rightarrow> label list \<Rightarrow> real \<Rightarrow> int \<Rightarrow> int \<Rightarrow> int \<Rightarrow> string
     \<Rightarrow> nat \<Rightarrow> int \<Rightarrow> nat
     \<Rightarrow> string list \<times> 'o \<Rightarrow> (string list \<times> 'o) io" where
  "distillation_epoch tr verbose sentences_dev labels_dev dev_speed batch_size epochs_num
       report_steps model_saving_path dev_num steps_num epoch =
     (\<lambda>(sentences_train, optimizer).
     bind_io (\<lambda>w. (Inr (random_shuffle tr (rng w) sentences_train), w\<lparr>rng := rng w + 1\<rparr>))
       (\<lambda>sentences_train.
     let report_loss = 0.0 in
     bind_io (for_loop (distillation_step tr verbose batch_size report_steps (int epoch)
                          epochs_num steps_num sentences_train)
                [0..<nat steps_num] (optimizer, report_loss)) (\<lambda>(optimizer, report_loss).
     bind_io (evaluate_if_dev dev_num sentences_dev labels_dev 0.5) (\<lambda>(dev_acc, ave_layers).
     bind_io (emit (Printed_distilling_eval (int epoch + 1) epochs_num dev_acc ave_layers))
       (\<lambda>_.
     bind_io (save_model model_saving_path) (\<lambda>_.
     bind_io (emit (Printed_distilling_saving model_saving_path)) (\<lambda>_.
     return_io (sentences_train, optimizer))))))))"

definition self_distillation ::
  "'o trainer \<Rightarrow> string list \<Rightarrow> int \<Rightarrow> real \<Rightarrow> int \<Rightarrow> real \<Rightarrow> int \<Rightarrow> string
     \<Rightarrow> string list \<Rightarrow> label list \<Rightarrow> real \<Rightarrow> bool \<Rightarrow> unit io" where
  "self_distillation tr sentences_train batch_size learning_rate epochs_num warmup report_steps
       model_saving_path sentences_dev labels_dev dev_speed verbose =
     bind_io (when_io verbose (emit (Printed_distilling epochs_num))) (\<lambda>_.
     let instances_num = int (length sentences_train);
         dev_num = length sentences_dev
     in if batch_size = 0 then lift_io (Inl ZeroDivisionError)
        else
          let train_steps =
                py_int (real_of_int (instances_num * epochs_num) / real_of_int batch_size) + 1;
              steps_num = instances_num div batch_size
          in bind_io (create_optimizer tr learning_rate warmup train_steps) (\<lambda>optimizer.
             bind_io (for_loop (distillation_epoch tr verbose sentences_dev labels_dev dev_speed
                                  batch_size epochs_num report_steps model_saving_path dev_num
                                  steps_num)
                        [0..<nat epochs_num] (sentences_train, optimizer)) (\<lambda>_.
             return_io ())))"

subsection \<open>The training entry point\<close>

text \<open>The keyword arguments of \<^verbatim>\<open>fit\<close>; \<^verbatim>\<open>kwargs.get(key, default)\<close> reads them.\<close>

record kwargs =
  kw_batch_size :: "int option"
  kw_sentences_dev :: "string list option"
  kw_labels_dev :: "label list option"
  kw_learning_rate :: "real option"
  kw_finetuning_epochs_num :: "int option"
  kw_distilling_epochs_num :: "int option"
  kw_report_steps :: "int option"
  kw_warmup :: "real option"
  kw_dev_speed :: "real option"
  kw_model_saving_path :: "string option"

definition kwargs_get :: "'a option \<Rightarrow> 'a \<Rightarrow> 'a" where
  "kwargs_get v dflt = (case v of Some x \<Rightarrow> x | None \<Rightarrow> dflt)"

definition fit :: "'o trainer \<Rightarrow> string list \<Rightarrow> label list \<Rightarrow> bool \<Rightarrow> kwargs \<Rightarrow> unit io" where
  "fit tr sentences_train labels_train verbose kwargs =
     bind_io (when_io verbose (emit Printed_training)) (\<lambda>_.
     let batch_size = kwargs_get (kw_batch_size kwargs) 16;
         sentences_dev = kwargs_get (kw_sentences_dev kwargs) [];
         labels_dev = kwargs_get (kw_labels_dev kwargs) [];
         learning_rate = kwargs_get (kw_learning_rate kwargs) (2 / 100000);
         finetuning_epochs_num = kwargs_get (kw_finetuning_epochs_num kwargs) 5;
         distilling_epochs_num = kwargs_get (kw_distilling_epochs_num kwargs) 10;
         report_steps = kwargs_get (kw_report_steps kwargs) 100;
         warmup = kwargs_get (kw_warmup kwargs) (1 / 10);
         dev_speed = kwargs_get (kw_dev_speed kwargs) (1 / 2);
         tmp_model_saving_path = tmp_path tr;
         model_saving_path = kwargs_get (kw_model_saving_path kwargs) tmp_model_saving_path
     in bind_io (fine_tuning_backbone tr sentences_train labels_train sentences_dev labels_dev
                   batch_size learning_rate finetuning_epochs_num warmup report_steps
                   model_saving_path verbose) (\<lambda>_.
        bind_io (self_distillation tr sentences_train batch_size (learning_rate * 10)
                   distilling_epochs_num warmup report_steps model_saving_path sentences_dev
                   labels_dev dev_speed verbose) (\<lambda>_.
        bind_io (save_model model_saving_path) (\<lambda>_.
        when_io verbose (emit (Printed_saved model_saving_path))))))"

subsection \<open>A small training set-up\<close>

text \<open>
  A trainer whose shuffles keep the order and whose update leaves the parameters as
  they are (it only counts the steps), and a world holding the concrete model, no
  checkpoint file and an empty log.
\<close>

definition demo_trainer :: "nat trainer" where
  "demo_trainer =
     \<lparr> shuffle_pairs = (\<lambda>n sentences labels. (sentences, labels)),
       random_shuffle = (\<lambda>n sentences. sentences),
       AdamW = (\<lambda>lr. 0),
       WarmupLinearSchedule = (\<lambda>optimizer warmup_steps t_total. optimizer),
       update = (\<lambda>optimizer loss_fn sd. (optimizer + 1, sd)),
       tmp_path = ''/tmp/FastBERT_tmp.bin'' \<rparr>"

definition demo_world :: world where
  "demo_world = \<lparr> model = demo, files = Map.empty, log = [], rng = 0 \<rparr>"

definition no_kwargs :: kwargs where
  "no_kwargs =
     \<lparr> kw_batch_size = None, kw_sentences_dev = None, kw_labels_dev = None,
       kw_learning_rate = None, kw_finetuning_epochs_num = None,
       kw_distilling_epochs_num = None, kw_report_steps = None, kw_warmup = None,
       kw_dev_speed = None, kw_model_saving_path = None \<rparr>"

text \<open>
  A call of \<^verbatim>\<open>fit\<close> with a one-sentence validation set, one epoch per phase and
  \<^verbatim>\<open>dev_speed=0.9\<close>.
\<close>

definition demo_kwargs :: kwargs where
  "demo_kwargs =
     no_kwargs \<lparr> kw_sentences_dev := Some [''a''], kw_labels_dev := Some [LStr ''pos''],
                 kw_finetuning_epochs_num := Some 1, kw_distilling_epochs_num := Some 1,
                 kw_dev_speed := Some (9 / 10) \<rparr>"

subsection \<open>Observations of a run\<close>

text \<open>The learning rates of the optimizers created so far, in order.\<close>

fun created_lr :: "event \<Rightarrow> real list" where
  "created_lr (Created_AdamW lr) = [lr]"
| "created_lr _ = []"

definition learning_rates :: "world \<Rightarrow> real list" where
  "learning_rates w = concat (map created_lr (log w))"

text \<open>The number of calls of \<^verbatim>\<open>save_model\<close> so far.\<close>

fun is_save :: "event \<Rightarrow> bool" where
  "is_save (Saved path) = True"
| "is_save _ = False"

definition saves :: "world \<Rightarrow> nat" where
  "saves w = length (filter is_save (log w))"

text \<open>A statement that leaves an observation of the world as it was, whatever it does otherwise.\<close>

definition preserves :: "(world \<Rightarrow> 'b) \<Rightarrow> 'a io \<Rightarrow> bool" where
  "preserves obs m \<longleftrightarrow> (\<forall>w. obs (snd (m w)) = obs w)"

text \<open>
  The checkpoint policy in the specification's words, for one epoch that takes the world
  from \<open>w\<close> to \<open>w'\<close>: the epoch's accuracy is the validation accuracy, at speed 0, of the
  model the epoch leaves; a checkpoint of that model is written to the path (one more
  call of \<^verbatim>\<open>save_model\<close>) when the accuracy strictly exceeds the best seen so far, and
  nothing is written otherwise.
\<close>

definition checkpoint_rule ::
  "string \<Rightarrow> string list \<Rightarrow> label list \<Rightarrow> real \<Rightarrow> real \<Rightarrow> world \<Rightarrow> world \<Rightarrow> bool" where
  "checkpoint_rule path sentences_dev labels_dev best acc w w' \<longleftrightarrow>
     (\<exists>ave. evaluate (model w') sentences_dev labels_dev 0 = Inr (acc, ave))
   \<and> (if acc > best
       then saves w' = saves w + 1 \<and> files w' = (files w)(path \<mapsto> state_dict (model w'))
       else saves w' = saves w \<and> files w' = files w)"

subsection \<open>The checkpoint scenario\<close>

text \<open>
  Twenty validation sentences \<open>a\<close> \<dots> \<open>t\<close> with token ids 1 \<dots> 20, the first ten labelled
  \<open>neg\<close>; a teacher head that answers \<open>neg\<close> exactly on the ids below a threshold; a trainer
  whose three updates set the threshold to 5, 4 and 7. The validation accuracies of the
  three epochs are then 0.70, 0.65 and 0.80.
\<close>

definition scenario_head :: "real \<Rightarrow> MiniClassifier" where
  "scenario_head threshold =
     \<lparr> pooling = ''max'',
       output_layer_0 = (\<lambda>v. [if 0 < sum_list v \<and> sum_list v < threshold then 1 else 0]),
       self_atten = (\<lambda>q k v m. q),
       output_layer_1 = (\<lambda>v. v),
       output_layer_2 = (\<lambda>v. if 0 < sum_list v then [ln 1, ln 9] else [ln 9, ln 1]) \<rparr>"

definition scenario_model :: FastBERT where
  "scenario_model =
     demo \<lparr> vocab_get := (\<lambda>t. case t of [] \<Rightarrow> 0 | c # _ \<Rightarrow> int (of_char c) - 96),
            classifiers := [demo_head 1 3, scenario_head 11] \<rparr>"

definition scenario_trainer :: "nat trainer" where
  "scenario_trainer =
     demo_trainer \<lparr> update := (\<lambda>optimizer loss_fn sd. case sd of (emb, layers, heads) \<Rightarrow>
        (optimizer + 1,
         (emb, layers,
          heads[1 := head_state (scenario_head
                       (if optimizer = 0 then 5 else if optimizer = 1 then 4 else 7))]))) \<rparr>"

definition scenario_dev :: "string list" where
  "scenario_dev = map (\<lambda>c. [c]) ''abcdefghijklmnopqrst''"

definition scenario_labels :: "label list" where
  "scenario_labels = replicate 10 (LStr ''neg'') @ replicate 10 (LStr ''pos'')"

definition scenario_world :: world where
  "scenario_world = demo_world \<lparr> model := scenario_model \<rparr>"

section \<open>Properties\<close>

subsection \<open>Token conversion\<close>

lemma convert_ids:
  assumes "0 \<le> seq_length self"
  shows "fst (convert_to_id_and_mask self sentence) =
         (let toks = cls_id self # map (vocab_get self) (tokenize self sentence);
              n = nat (seq_length self)
          in if n \<le> length toks then take n toks
             else toks @ replicate (n - length toks) (pad_id self))"
  using assms
  by (auto simp: convert_to_id_and_mask_def Let_def slice_to_def repeat_def nat_diff_distrib')

lemma convert_mask:
  assumes "0 \<le> seq_length self"
  shows "snd (convert_to_id_and_mask self sentence) =
         (let k = Suc (length (tokenize self sentence)); n = nat (seq_length self)
          in replicate (min k n) 1 @ replicate (n - k) 0)"
proof -
  let ?k = "Suc (length (tokenize self sentence))"
  have ones: "repeat (1::int) (int ?k) = replicate ?k 1"
    by (simp add: repeat_def del: replicate_Suc)
  have len: "length ([cls_id self] @ map (vocab_get self) (tokenize self sentence)) = ?k"
    by simp
  show ?thesis
    unfolding convert_to_id_and_mask_def Let_def len ones
    using assms
    by (auto simp: slice_to_def repeat_def nat_diff_distrib' min_def simp del: replicate_Suc)
qed

text \<open>
  C4. For a sequence length \<open>seq_length \<ge> 0\<close> and every sentence, the ids and the mask both
  have length exactly \<open>seq_length\<close>; position 0 (when there is one) holds the start-token id;
  \<open>mask[i] = 1\<close> exactly at the positions of the start token and the sentence's tokens, and
  0 elsewhere; when start token plus tokens reach \<open>seq_length\<close>, ids are the first
  \<open>seq_length\<close> of them, and otherwise they are followed by pad-token ids up to
  \<open>seq_length\<close>.
\<close>

theorem convert_to_id_and_mask_shape:
  fixes self :: FastBERT and sentence :: string
  assumes "0 \<le> seq_length self"
  defines "toks \<equiv> cls_id self # map (vocab_get self) (tokenize self sentence)"
  defines "n \<equiv> nat (seq_length self)"
  defines "ids \<equiv> fst (convert_to_id_and_mask self sentence)"
  defines "msk \<equiv> snd (convert_to_id_and_mask self sentence)"
  shows "length ids = n \<and> length msk = n
       \<and> (0 < n \<longrightarrow> ids ! 0 = cls_id self)
       \<and> (\<forall>i<n. msk ! i = (if i < length toks then 1 else 0))
       \<and> (\<forall>i<n. i < length toks \<longrightarrow> ids ! i = toks ! i)
       \<and> (\<forall>i<n. length toks \<le> i \<longrightarrow> ids ! i = pad_id self)
       \<and> (n \<le> length toks \<longrightarrow> ids = take n toks \<and> msk = replicate n 1)
       \<and> (length toks < n \<longrightarrow>
            ids = toks @ replicate (n - length toks) (pad_id self)
          \<and> msk = replicate (length toks) 1 @ replicate (n - length toks) 0)"
proof -
  have I: "ids = (if n \<le> length toks then take n toks
                  else toks @ replicate (n - length toks) (pad_id self))"
    using convert_ids [OF assms(1), of sentence] by (simp add: ids_def toks_def n_def Let_def)
  have M: "msk = replicate (min (length toks) n) 1 @ replicate (n - length toks) 0"
    using convert_mask [OF assms(1), of sentence] by (simp add: msk_def toks_def n_def Let_def)
  have 1: "length ids = n" by (simp add: I)
  have 2: "length msk = n" by (simp add: M)
  have 3: "0 < n \<longrightarrow> ids ! 0 = cls_id self"
    by (auto simp: I toks_def)
  have 4: "\<forall>i<n. msk ! i = (if i < length toks then 1 else 0)"
    by (auto simp: M nth_append)
  have 5: "\<forall>i<n. i < length toks \<longrightarrow> ids ! i = toks ! i"
    by (auto simp: I nth_append)
  have 6: "\<forall>i<n. length toks \<le> i \<longrightarrow> ids ! i = pad_id self"
    by (auto simp: I nth_append)
  have 7: "n \<le> length toks \<longrightarrow> ids = take n toks \<and> msk = replicate n 1"
    by (auto simp: I M min_def)
  have 8: "length toks < n \<longrightarrow>
            ids = toks @ replicate (n - length toks) (pad_id self)
          \<and> msk = replicate (length toks) 1 @ replicate (n - length toks) 0"
    by (auto simp: I M min_def)
  from 1 2 3 4 5 6 7 8 show ?thesis by blast
qed

text \<open>
  The two scenarios of the specification at sequence length 4: one token is padded to
  \<open>[start, tok, pad, pad]\<close> with mask \<open>[1, 1, 0, 0]\<close>; five tokens are cut to four entries
  with the start token in front.
\<close>

theorem convert_to_id_and_mask_shape_witness:
  "0 \<le> seq_length demo
   \<and> convert_to_id_and_mask demo ''a'' = ([101, 7, 0, 0], [1, 1, 0, 0])
   \<and> convert_to_id_and_mask demo ''hello'' = ([101, 7, 7, 7], [1, 1, 1, 1])"
  using convert_to_id_and_mask_shape [of demo "''a''"]
        convert_to_id_and_mask_shape [of demo "''hello''"]
  by (simp add: demo_def prod_eq_iff numeral_eq_Suc)

subsection \<open>Pooling in the classifier head\<close>

lemma length_foldl_map2_max:
  "\<forall>v \<in> set vs. length v = length a \<Longrightarrow> length (foldl (map2 max) a vs) = length (a :: real list)"
  by (induction vs arbitrary: a) auto

text \<open>
  \<^verbatim>\<open>max\<close>, \<^verbatim>\<open>last\<close> and the default branch collapse a (batch, seq, hidden) tensor to
  (batch, hidden).
\<close>

lemma pool_sequence_shape:
  assumes "rectangular3 b s h t" and "0 < s" and "p \<noteq> ''mean''"
  shows "\<exists>r. pool p t = Inr r \<and> rectangular2 b h r"
proof -
  have ne: "[] \<notin> set t" using assms(1,2) by (auto simp: rectangular3_def)
  have mx: "length (foldl (map2 max) (hd m) (tl m)) = h" if "m \<in> set t" for m
  proof -
    from that assms(1,2) have m: "m \<noteq> []" "\<forall>v \<in> set m. length v = h"
      by (auto simp: rectangular3_def)
    then have "hd m \<in> set m" "set (tl m) \<subseteq> set m" by (auto dest: list.set_sel(2))
    with m show ?thesis by (subst length_foldl_map2_max) auto
  qed
  have la: "length (last m) = h" "length (hd m) = h" if "m \<in> set t" for m
    using that assms(1,2) by (auto simp: rectangular3_def)
  show ?thesis using assms(1,3) ne mx la
    by (auto simp: pool_def rectangular3_def rectangular2_def)
qed

text \<open>\<^verbatim>\<open>mean\<close> reduces the last dimension instead and returns (batch, seq).\<close>

lemma pool_mean_shape:
  assumes "rectangular3 b s h t"
  shows "\<exists>r. pool ''mean'' t = Inr r \<and> rectangular2 b s r"
  using assms by (auto simp: pool_def rectangular3_def rectangular2_def)

text \<open>
  C7. Pooling collapses the sequence dimension for each of the four strategies. On a
  tensor of shape (1, 2, 3), \<^verbatim>\<open>max\<close>, \<^verbatim>\<open>last\<close> and the default return one row of 3
  values, but \<^verbatim>\<open>mean\<close> averages over the hidden dimension (\<^verbatim>\<open>dim=-1\<close>) and returns a
  tensor of shape (1, 2): one mean per position.
\<close>

theorem pool_mean_reduces_hidden_dimension:
  "shape3 [[[1, 2, 3], [4, 5, 6]]] = [1, 2, 3]
   \<and> pool ''mean'' [[[1, 2, 3], [4, 5, 6]]] = Inr [[2, 5]]
   \<and> shape2 [[2, 5]] = [1, 2]
   \<and> pool ''max'' [[[1, 2, 3], [4, 5, 6]]] = Inr [[4, 5, 6]]
   \<and> pool ''last'' [[[1, 2, 3], [4, 5, 6]]] = Inr [[4, 5, 6]]
   \<and> pool ''first'' [[[1, 2, 3], [4, 5, 6]]] = Inr [[1, 2, 3]]
   \<and> shape2 [[4, 5, 6]] = [1, 3]"
  by (simp add: pool_def shape2_def shape3_def)

subsection \<open>Adaptive inference\<close>

lemma bind_err_simps [simp]:
  "bind_err (Inl e) f = Inl e"
  "bind_err (Inr x) f = f x"
  by (simp_all add: bind_err_def)

lemma bind_err_eq_Inr:
  "bind_err r f = Inr y \<longleftrightarrow> (\<exists>x. r = Inr x \<and> f x = Inr y)"
  by (cases r) auto

lemma hidden_layers_exec:
  "hidden_layers self msk speed is hidden probs e0 = Inr (probs', e)
     \<Longrightarrow> e = e0 \<or> (\<exists>k \<in> set is. e = k + 1)"
proof (induction "is" arbitrary: hidden probs)
  case Nil
  then show ?case by simp
next
  case (Cons i "is")
  then show ?case
    by (auto simp: bind_err_eq_Inr Let_def split: if_splits)
qed

lemma hidden_layers_antitone:
  assumes "hidden_layers self msk a is hidden probs e0 = Inr (pa, ea)"
    and "hidden_layers self msk b is hidden probs e0 = Inr (pb, eb)"
    and "b < a" and "sorted_wrt (<) is" and "\<forall>k \<in> set is. k < e0"
  shows "ea \<le> eb"
  using assms
proof (induction "is" arbitrary: hidden probs)
  case Nil
  then show ?case by simp
next
  case (Cons i "is")
  from Cons.prems(1) obtain layer classifier logits u where
    l: "list_get (transformer self) i = Inr layer"
    and c: "list_get (classifiers self) i = Inr classifier"
    and g: "MiniClassifier_forward classifier (layer hidden msk) msk = Inr logits"
    and u: "item (calc_uncertainty self (softmax logits) (labels_num self)) = Inr u"
    by (auto simp: bind_err_eq_Inr Let_def)
  show ?case
  proof (cases "u < a")
    case True
    with Cons.prems(1) l c g u have ea: "ea = i + 1" by (simp add: Let_def)
    show ?thesis
    proof (cases "u < b")
      case True
      with Cons.prems(2) l c g u show ?thesis using ea by (simp add: Let_def)
    next
      case False
      with Cons.prems(2) l c g u
      have "hidden_layers self msk b is (layer hidden msk) (Some (softmax logits)) e0 = Inr (pb, eb)"
        by (simp add: Let_def)
      from hidden_layers_exec [OF this] Cons.prems(4,5) show ?thesis using ea by auto
    qed
  next
    case False
    with Cons.prems(3) have nb: "\<not> u < b" by simp
    from False Cons.prems(1) l c g u
    have A: "hidden_layers self msk a is (layer hidden msk) (Some (softmax logits)) e0 = Inr (pa, ea)"
      by (simp add: Let_def)
    from nb Cons.prems(2) l c g u
    have B: "hidden_layers self msk b is (layer hidden msk) (Some (softmax logits)) e0 = Inr (pb, eb)"
      by (simp add: Let_def)
    from Cons.IH [OF A B] Cons.prems(3,4,5) show ?thesis by simp
  qed
qed

lemma fast_infer_Inr:
  assumes "fast_infer self sentence speed = Inr (label, e)"
  shows "\<exists>m probs. extend_mask (seq_length self) [snd (convert_to_id_and_mask self sentence)] = Inr m
     \<and> hidden_layers self m speed [0..<layers_num self]
          (embedding self [fst (convert_to_id_and_mask self sentence)]
                          [snd (convert_to_id_and_mask self sentence)])
          None (layers_num self) = Inr (Some probs, e)"
  using assms
  by (auto simp: fast_infer_def Let_def bind_err_eq_Inr split_beta split: option.splits prod.splits)

text \<open>
  C3. For a fixed sentence and fixed parameters, a larger speed never executes more
  layers: when inference returns at both speeds and \<open>speed_b < speed_a\<close>, the layer
  count at \<open>speed_a\<close> is at most the one at \<open>speed_b\<close>.
\<close>

theorem exec_layer_num_antitone:
  assumes "speed_b < speed_a"
    and "fast_infer self sentence speed_a = Inr (label_a, exec_a)"
    and "fast_infer self sentence speed_b = Inr (label_b, exec_b)"
  shows "exec_a \<le> exec_b"
proof -
  from fast_infer_Inr [OF assms(2)] fast_infer_Inr [OF assms(3)]
  obtain m pa pb where
    "hidden_layers self m speed_a [0..<layers_num self]
          (embedding self [fst (convert_to_id_and_mask self sentence)]
                          [snd (convert_to_id_and_mask self sentence)])
          None (layers_num self) = Inr (Some pa, exec_a)"
    "hidden_layers self m speed_b [0..<layers_num self]
          (embedding self [fst (convert_to_id_and_mask self sentence)]
                          [snd (convert_to_id_and_mask self sentence)])
          None (layers_num self) = Inr (Some pb, exec_b)"
    by auto
  from hidden_layers_antitone [OF this assms(1)] show ?thesis by simp
qed

text \<open>Everything needed to evaluate inference on a concrete model.\<close>

lemmas infer_eval =
  fast_infer_def convert_to_id_and_mask_def slice_to_def repeat_def extend_mask_def
  bind_err_def list_get_def list_last_def MiniClassifier_forward_def pool_def softmax_def
  softmax_row_def item_def argmax_def argmax_row_def dict_get_def make_id2label_def
  make_label_map_def numeral_eq_Suc

lemmas demo_eval = demo_def demo_head_def demo_uncertainty_def

lemma demo_infer:
  "fast_infer demo ''a'' 0 = Inr (LStr ''pos'', 2)"
  "fast_infer demo ''a'' (3/10) = Inr (LStr ''pos'', 2)"
  "fast_infer demo ''a'' (1/2) = Inr (LStr ''pos'', 2)"
  "fast_infer demo ''a'' (3/5) = Inr (LStr ''neg'', 1)"
  "fast_infer demo ''b'' (1/2) = Inr (LStr ''neg'', 2)"
  "fast_infer demo ''b'' (9/10) = Inr (LStr ''pos'', 1)"
  by (simp_all add: infer_eval demo_eval)

theorem exec_layer_num_antitone_witness:
  "(3/10 :: real) < 3/5
   \<and> fast_infer demo ''a'' (3/5) = Inr (LStr ''neg'', 1)
   \<and> fast_infer demo ''a'' (3/10) = Inr (LStr ''pos'', 2)
   \<and> (1::nat) \<le> 2"
  using exec_layer_num_antitone [of "3/10" "3/5" demo "''a''" "LStr ''neg''" 1 "LStr ''pos''" 2]
  by (simp add: infer_eval demo_eval)

subsection \<open>The public entry point\<close>

text \<open>
  \<^verbatim>\<open>_fast_infer\<close> already returns the label name; \<^verbatim>\<open>forward\<close> indexes
  \<^verbatim>\<open>id2label\<close> with it a second time. With string labels no key matches, so
  \<^verbatim>\<open>forward\<close> never returns.
\<close>

lemma forward_string_labels:
  assumes "\<forall>(i, l) \<in> set (id2label self). \<exists>s. l = LStr s"
  shows "forward self sentence speed \<noteq> Inr r"
proof
  assume "forward self sentence speed = Inr r"
  then obtain label_id e label where
    f: "fast_infer self sentence speed = Inr (label_id, e)"
    and l: "id2label_at self label_id = Inr label"
    by (auto simp: forward_def bind_err_eq_Inr)
  from f obtain k where "dict_get (id2label self) k = Inr label_id"
    by (auto simp: fast_infer_def Let_def bind_err_eq_Inr split: prod.splits option.splits)
  then have "(k, label_id) \<in> set (id2label self)"
    by (auto simp: dict_get_def split: option.splits dest: map_of_SomeD)
  with assms obtain s where "label_id = LStr s" by auto
  with l show False by (simp add: id2label_at_def)
qed

text \<open>
  C1. \<^verbatim>\<open>forward\<close> returns the pair of the predicted label's name and the executed-layer
  count. On the model with labels \<^verbatim>\<open>["pos", "neg"]\<close> and the sentence \<^verbatim>\<open>"a"\<close> at speed 0,
  \<^verbatim>\<open>_fast_infer\<close> returns \<^verbatim>\<open>("pos", 2)\<close>, and \<^verbatim>\<open>forward\<close> raises \<^verbatim>\<open>KeyError\<close> instead of
  returning it.
\<close>

theorem forward_raises_on_string_labels:
  "fast_infer demo ''a'' 0 = Inr (LStr ''pos'', 2) \<and> forward demo ''a'' 0 = Inl KeyError"
  by (simp add: forward_def id2label_at_def demo_infer)

subsection \<open>The label dictionaries\<close>

lemma update_fresh: "k \<notin> fst ` set al \<Longrightarrow> AList.update k v al = al @ [(k, v)]"
  by (induction al) auto

lemma foldl_update_distinct:
  "distinct (map fst kvs) \<Longrightarrow> foldl (\<lambda>d (k, v). AList.update k v d) [] kvs = kvs"
proof (induction kvs rule: rev_induct)
  case Nil
  then show ?case by simp
next
  case (snoc x xs)
  then show ?case by (cases x) (auto simp: update_fresh)
qed

lemma make_label_map_distinct:
  assumes "distinct labels"
  shows "make_label_map labels = zip labels [0..<length labels]"
proof -
  have "make_label_map labels
      = foldl (\<lambda>d (k, v). AList.update k v d) [] (map (\<lambda>(v, k). (k, v)) (enumerate 0 labels))"
    by (simp add: make_label_map_def foldl_map split_def)
  also have "map (\<lambda>(v, k). (k, v)) (enumerate 0 labels) = zip labels [0..<length labels]"
    by (simp add: enumerate_eq_zip zip_commute [of labels] split_def)
  also have "foldl (\<lambda>d (k, v). AList.update k v d) [] (zip labels [0..<length labels])
      = zip labels [0..<length labels]"
    using assms by (intro foldl_update_distinct) simp
  finally show ?thesis .
qed

lemma make_id2label_distinct:
  assumes "distinct labels"
  shows "make_id2label (make_label_map labels) = zip [0..<length labels] labels"
proof -
  have "make_id2label (zip labels [0..<length labels])
      = foldl (\<lambda>d (k, v). AList.update k v d) [] (map (\<lambda>(k, v). (v, k)) (zip labels [0..<length labels]))"
    by (simp add: make_id2label_def foldl_map split_def)
  also have "map (\<lambda>(k, v). (v, k)) (zip labels [0..<length labels]) = zip [0..<length labels] labels"
    by (subst zip_commute [of "[0..<length labels]"]) (simp add: split_def)
  also have "foldl (\<lambda>d (k, v). AList.update k v d) [] (zip [0..<length labels] labels)
      = zip [0..<length labels] labels"
    by (intro foldl_update_distinct) simp
  finally show ?thesis by (simp add: make_label_map_distinct [OF assms] comp_def)
qed

lemma id2label_lookup:
  assumes "distinct labels" and "i < length labels"
  shows "dict_get (make_id2label (make_label_map labels)) i = Inr (labels ! i)"
proof -
  have "map_of (zip [0..<length labels] labels) ([0..<length labels] ! i) = Some (labels ! i)"
    using assms(2) by (intro map_of_zip_nth) simp_all
  with assms show ?thesis by (simp add: dict_get_def make_id2label_distinct)
qed

subsection \<open>Softmax and argmax\<close>

lemma softmax_row_distribution:
  assumes "xs \<noteq> []"
  shows "distribution (softmax_row xs)"
proof -
  let ?z = "sum_list (map exp xs)"
  have pos: "0 < ?z" using assms
    by (induction xs rule: list_nonempty_induct) (simp_all add: add_pos_pos)
  have "sum_list (map (\<lambda>x. exp x / z) ys) = sum_list (map exp ys) / z" for z :: real and ys
    by (induction ys) (simp_all add: add_divide_distrib)
  then have "sum_list (softmax_row xs) = ?z / ?z"
    by (simp add: softmax_row_def)
  with pos have "sum_list (softmax_row xs) = 1" by simp
  moreover have "\<forall>p \<in> set (softmax_row xs). 0 \<le> p"
    using pos by (auto simp: softmax_row_def)
  ultimately show ?thesis using assms by (simp add: distribution_def softmax_row_def)
qed

lemma argmax_row_less:
  assumes "p \<noteq> []"
  shows "argmax_row p < length p"
proof -
  have "Max (set p) \<in> set p" using assms by (intro Max_in) simp_all
  then have "takeWhile (\<lambda>x. x \<noteq> Max (set p)) p \<noteq> p" by auto
  then show ?thesis
    unfolding argmax_row_def
    by (metis length_takeWhile_le le_neq_implies_less takeWhile_eq_take take_all order_refl)
qed

subsection \<open>Inference without early exit\<close>

lemma list_get_Inr [simp]: "i < length xs \<Longrightarrow> list_get xs i = Inr (xs ! i)"
  by (simp add: list_get_def)

lemma item_single [simp]: "item [x] = Inr x"
  by (simp add: item_def)

lemma item_length_1: "length t = 1 \<Longrightarrow> \<exists>u. t = [u] \<and> item t = Inr u"
  by (cases t) (auto simp: item_def)

text \<open>One layer and its head on a well-shaped model.\<close>

lemma layer_step:
  assumes ws: "well_shaped self" and i: "i < layers_num self" and h: "single h"
  shows "single ((transformer self ! i) h msk)"
  using assms unfolding well_shaped_def by (metis nth_mem)

lemma head_step:
  assumes ws: "well_shaped self" and i: "i < layers_num self" and h: "single h"
  shows "\<exists>row u. MiniClassifier_forward (classifiers self ! i) h msk = Inr [row]
          \<and> length row = labels_num self \<and> row \<noteq> []
          \<and> calc_uncertainty self (softmax [row]) (labels_num self) = [u]"
proof -
  from ws i have "classifiers self ! i \<in> set (classifiers self)"
    by (simp add: well_shaped_def)
  with ws h obtain row where r: "MiniClassifier_forward (classifiers self ! i) h msk = Inr [row]"
    "length row = labels_num self"
    unfolding well_shaped_def by blast
  moreover from ws r have "row \<noteq> []" by (auto simp: well_shaped_def)
  moreover from ws have "length (calc_uncertainty self (softmax [row]) (labels_num self)) = 1"
    by (simp add: well_shaped_def softmax_def)
  from item_length_1 [OF this]
  have "\<exists>u. calc_uncertainty self (softmax [row]) (labels_num self) = [u]" by blast
  ultimately show ?thesis by blast
qed

lemma head_step_nonneg:
  assumes "nonneg_uncertainty self" and "row \<noteq> []"
    and "calc_uncertainty self (softmax [row]) (labels_num self) = [u]"
  shows "0 \<le> u"
proof -
  have "\<forall>p \<in> set (softmax [row]). distribution p"
    using assms(2) by (simp add: softmax_def softmax_row_distribution)
  with assms(1) have "\<forall>u \<in> set (calc_uncertainty self (softmax [row]) (labels_num self)). 0 \<le> u"
    unfolding nonneg_uncertainty_def by blast
  with assms(3) show ?thesis by simp
qed

lemma hidden_layers_no_exit:
  assumes ws: "well_shaped self" and nn: "nonneg_uncertainty self" and sp: "speed \<le> 0"
    and "\<forall>i \<in> set is. i < layers_num self" and "single h"
  shows "\<exists>h'. run_layers self msk is h = Inr h' \<and> single h'
     \<and> (is = [] \<longrightarrow> hidden_layers self msk speed is h probs e0 = Inr (probs, e0))
     \<and> (is \<noteq> [] \<longrightarrow> (\<exists>row. MiniClassifier_forward (classifiers self ! last is) h' msk = Inr [row]
            \<and> length row = labels_num self
            \<and> hidden_layers self msk speed is h probs e0 = Inr (Some (softmax [row]), e0)))"
  using assms(4,5)
proof (induction "is" arbitrary: h probs)
  case Nil
  then show ?case by simp
next
  case (Cons i "is")
  let ?h1 = "(transformer self ! i) h msk"
  from Cons.prems have i: "i < layers_num self" by simp
  with ws have il: "i < length (transformer self)" "i < length (classifiers self)"
    by (simp_all add: well_shaped_def)
  have h1: "single ?h1" using layer_step [OF ws i Cons.prems(2)] .
  from head_step [OF ws i h1, of msk] obtain row u where
    row: "MiniClassifier_forward (classifiers self ! i) ?h1 msk = Inr [row]"
      "length row = labels_num self" "row \<noteq> []"
    and u: "calc_uncertainty self (softmax [row]) (labels_num self) = [u]"
    by blast
  from head_step_nonneg [OF nn row(3) u] sp have nu: "\<not> u < speed" by simp
  have step: "hidden_layers self msk speed (i # is) h probs e0
     = hidden_layers self msk speed is ?h1 (Some (softmax [row])) e0"
    using il row u nu by (simp add: Let_def)
  have run: "run_layers self msk (i # is) h = run_layers self msk is ?h1"
    using il by simp
  from Cons.prems have "\<forall>i \<in> set is. i < layers_num self" by simp
  from Cons.IH [OF this h1, of "Some (softmax [row])"] obtain h' where
    IH: "run_layers self msk is ?h1 = Inr h'" "single h'"
      "is = [] \<longrightarrow> hidden_layers self msk speed is ?h1 (Some (softmax [row])) e0
          = Inr (Some (softmax [row]), e0)"
      "is \<noteq> [] \<longrightarrow> (\<exists>row'. MiniClassifier_forward (classifiers self ! last is) h' msk = Inr [row']
            \<and> length row' = labels_num self
            \<and> hidden_layers self msk speed is ?h1 (Some (softmax [row])) e0
                = Inr (Some (softmax [row']), e0))"
    by blast
  show ?case
  proof (cases "is = []")
    case True
    with IH(1) have "h' = ?h1" by simp
    with True IH row step run show ?thesis by auto
  next
    case False
    with IH step run show ?thesis by auto
  qed
qed

lemma fast_infer_setup:
  assumes ws: "well_shaped self"
  shows "\<exists>ids mask m. convert_to_id_and_mask self sentence = (ids, mask)
     \<and> extend_mask (seq_length self) [mask] = Inr m
     \<and> single (embedding self [ids] [mask])"
proof -
  obtain ids mask where c: "convert_to_id_and_mask self sentence = (ids, mask)"
    by (cases "convert_to_id_and_mask self sentence")
  from ws have sl: "0 < seq_length self" by (simp add: well_shaped_def)
  with convert_to_id_and_mask_shape [of self sentence] c
  have "length ids = nat (seq_length self)" by simp
  with sl have "ids \<noteq> []" by auto
  with ws have "single (embedding self [ids] [mask])" by (simp add: well_shaped_def)
  moreover from sl have "\<exists>m. extend_mask (seq_length self) [mask] = Inr m"
    by (simp add: extend_mask_def)
  ultimately show ?thesis using c by blast
qed

lemma argmax_single: "p \<noteq> [] \<Longrightarrow> bind_err (argmax [p]) item = Inr (argmax_row p)"
  by (simp add: argmax_def)

text \<open>
  C2. At speed 0.0 inference never exits early: on a well-shaped model whose uncertainty
  score is never negative, with a list of unique labels, for every sentence the teacher's
  probabilities exist, the executed-layer count is the number of layers and the predicted
  label is the one at the (first) argmax of the teacher's probabilities.
\<close>

theorem full_depth_at_speed_zero:
  assumes "well_shaped self" and "nonneg_uncertainty self"
    and "distinct labels" and "length labels = labels_num self"
    and "id2label self = make_id2label (make_label_map labels)"
  shows "\<exists>probs. teacher_probabilities self sentence = Inr [probs]
     \<and> fast_infer self sentence 0
         = Inr (labels ! argmax_row probs, layers_num self)"
proof -
  from fast_infer_setup [OF assms(1), of sentence] obtain ids mask m where
    c: "convert_to_id_and_mask self sentence = (ids, mask)"
    and m: "extend_mask (seq_length self) [mask] = Inr m"
    and e: "single (embedding self [ids] [mask])"
    by blast
  let ?L = "layers_num self"
  from assms(1) have L: "0 < ?L" "length (classifiers self) = ?L"
    by (simp_all add: well_shaped_def)
  then have ne: "[0..<?L] \<noteq> []" and la: "last [0..<?L] = ?L - 1" by simp_all
  have "\<forall>i \<in> set [0..<?L]. i < ?L" by simp
  from hidden_layers_no_exit [OF assms(1,2) order_refl this e, of m None ?L] ne la
  obtain h' row where
    run: "run_layers self m [0..<?L] (embedding self [ids] [mask]) = Inr h'"
    and row: "MiniClassifier_forward (classifiers self ! (?L - 1)) h' m = Inr [row]"
      "length row = labels_num self"
    and hl: "hidden_layers self m 0 [0..<?L] (embedding self [ids] [mask]) None ?L
               = Inr (Some (softmax [row]), ?L)"
    by auto
  from L have cl: "list_last (classifiers self) = Inr (classifiers self ! (?L - 1))"
    by (auto simp: list_last_def last_conv_nth)
  have tp: "teacher_probabilities self sentence = Inr [softmax_row row]"
    using c m run row cl by (simp add: teacher_probabilities_def teacher_logits_def softmax_def)
  from assms(1) row have rne: "softmax_row row \<noteq> []"
    by (auto simp: well_shaped_def softmax_row_def)
  have "argmax_row (softmax_row row) < length (softmax_row row)"
    using rne by (rule argmax_row_less)
  then have "argmax_row (softmax_row row) < length labels"
    using row assms(4) by (simp add: softmax_row_def)
  from id2label_lookup [OF assms(3) this] assms(5)
  have lk: "dict_get (id2label self) (argmax_row (softmax_row row))
            = Inr (labels ! argmax_row (softmax_row row))" by simp
  have "fast_infer self sentence 0 = Inr (labels ! argmax_row (softmax_row row), ?L)"
    using c m hl lk argmax_single [OF rne]
    by (simp add: fast_infer_def softmax_def)
  with tp show ?thesis by blast
qed

lemma demo_head_forward:
  assumes "single h"
  shows "\<exists>row. MiniClassifier_forward (demo_head a b) h m = Inr [row] \<and> length row = 2"
proof -
  from assms obtain s where h: "h = [s]" "s \<noteq> []"
    by (cases h) (auto simp: single_def)
  then show ?thesis
    by (simp add: MiniClassifier_forward_def demo_head_def pool_def)
qed

lemma demo_well_shaped: "well_shaped demo"
  unfolding well_shaped_def
proof (intro conjI allI ballI impI)
  fix c h m assume "c \<in> set (classifiers demo)" "single h"
  then show "\<exists>row. MiniClassifier_forward c h m = Inr [row] \<and> length row = labels_num demo"
    using demo_head_forward [of h] by (auto simp: demo_def)
next
  fix layer h m assume "layer \<in> set (transformer demo)" "single h"
  then show "single (layer h m)" by (auto simp: demo_def)
next
  fix ids :: "int list list" and mask :: "int list list"
  assume "length ids = 1 \<and> [] \<notin> set ids"
  then show "single (embedding demo ids mask)"
    by (auto simp: demo_def single_def)
qed (simp_all add: demo_def demo_uncertainty_def)

lemma distribution_le_1:
  assumes "distribution p" shows "Max (set p) \<le> 1"
proof -
  from assms have ne: "p \<noteq> []" and nn: "\<forall>x \<in> set p. 0 \<le> x" and s: "sum_list p = 1"
    by (simp_all add: distribution_def)
  have "x \<le> sum_list p" if "x \<in> set p" for x
    using that nn by (intro member_le_sum_list) auto
  with s ne show ?thesis by simp
qed

lemma demo_nonneg_uncertainty: "nonneg_uncertainty demo"
  unfolding nonneg_uncertainty_def
  by (auto simp: demo_def demo_uncertainty_def distribution_le_1)

theorem full_depth_at_speed_zero_witness:
  "well_shaped demo \<and> nonneg_uncertainty demo
   \<and> distinct [LStr ''pos'', LStr ''neg'']
   \<and> length [LStr ''pos'', LStr ''neg''] = labels_num demo
   \<and> id2label demo = make_id2label (make_label_map [LStr ''pos'', LStr ''neg''])
   \<and> teacher_probabilities demo ''a'' = Inr [[9 / 10, 1 / 10]]
   \<and> argmax_row [9 / 10, 1 / 10] = 0
   \<and> fast_infer demo ''a'' 0 = Inr (LStr ''pos'', 2)"
proof -
  have l: "distinct [LStr ''pos'', LStr ''neg'']"
    "length [LStr ''pos'', LStr ''neg''] = labels_num demo"
    "id2label demo = make_id2label (make_label_map [LStr ''pos'', LStr ''neg''])"
    by (simp_all add: demo_def)
  have tp: "teacher_probabilities demo ''a'' = Inr [[9 / 10, 1 / 10]]"
    by (simp add: teacher_probabilities_def teacher_logits_def infer_eval demo_eval)
  have am: "argmax_row [9 / 10, 1 / 10] = 0" by (simp add: argmax_row_def)
  have L: "layers_num demo = 2" by (simp add: demo_def)
  from full_depth_at_speed_zero [OF demo_well_shaped demo_nonneg_uncertainty l, of "''a''"]
  have "fast_infer demo ''a'' 0 = Inr (LStr ''pos'', 2)"
    unfolding tp L by (auto simp: am)
  with demo_well_shaped demo_nonneg_uncertainty l tp am show ?thesis by blast
qed

lemma hidden_layers_returns:
  assumes ws: "well_shaped self"
    and "\<forall>i \<in> set is. i < layers_num self" and "single h" and "is \<noteq> []"
  shows "\<exists>row e. hidden_layers self msk speed is h probs e0 = Inr (Some (softmax [row]), e)
           \<and> length row = labels_num self \<and> (e = e0 \<or> (\<exists>k \<in> set is. e = k + 1))"
  using assms(2,3,4)
proof (induction "is" arbitrary: h probs)
  case Nil
  then show ?case by simp
next
  case (Cons i "is")
  let ?h1 = "(transformer self ! i) h msk"
  from Cons.prems have i: "i < layers_num self" by simp
  with ws have il: "i < length (transformer self)" "i < length (classifiers self)"
    by (simp_all add: well_shaped_def)
  have h1: "single ?h1" using layer_step [OF ws i Cons.prems(2)] .
  from head_step [OF ws i h1, of msk] obtain row u where
    row: "MiniClassifier_forward (classifiers self ! i) ?h1 msk = Inr [row]"
      "length row = labels_num self"
    and u: "calc_uncertainty self (softmax [row]) (labels_num self) = [u]"
    by blast
  show ?case
  proof (cases "u < speed")
    case True
    with il row u show ?thesis by (auto simp: Let_def)
  next
    case False
    then have step: "hidden_layers self msk speed (i # is) h probs e0
       = hidden_layers self msk speed is ?h1 (Some (softmax [row])) e0"
      using il row u by (simp add: Let_def)
    show ?thesis
    proof (cases "is = []")
      case True
      with step row show ?thesis by auto
    next
      case False
      from Cons.prems have "\<forall>i \<in> set is. i < layers_num self" by simp
      from Cons.IH [OF this h1 False, of "Some (softmax [row])"] step
      show ?thesis by auto
    qed
  qed
qed

text \<open>
  \<^verbatim>\<open>_fast_infer\<close> itself is total on a well-shaped model with unique labels: it returns a
  member of the label list and a layer count between 1 and the number of layers.
\<close>

lemma fast_infer_returns:
  assumes "well_shaped self"
    and "distinct labels" and "length labels = labels_num self"
    and "id2label self = make_id2label (make_label_map labels)"
  shows "\<exists>label e. fast_infer self sentence speed = Inr (label, e)
     \<and> label \<in> set labels \<and> 1 \<le> e \<and> e \<le> layers_num self"
proof -
  from fast_infer_setup [OF assms(1), of sentence] obtain ids mask m where
    c: "convert_to_id_and_mask self sentence = (ids, mask)"
    and m: "extend_mask (seq_length self) [mask] = Inr m"
    and e: "single (embedding self [ids] [mask])"
    by blast
  let ?L = "layers_num self"
  from assms(1) have L: "0 < ?L" by (simp add: well_shaped_def)
  then have ne: "[0..<?L] \<noteq> []" by simp
  have "\<forall>i \<in> set [0..<?L]. i < ?L" by simp
  from hidden_layers_returns [OF assms(1) this e ne, of m speed None ?L]
  obtain row ex where
    hl: "hidden_layers self m speed [0..<?L] (embedding self [ids] [mask]) None ?L
               = Inr (Some (softmax [row]), ex)"
    and row: "length row = labels_num self"
    and ex: "ex = ?L \<or> (\<exists>k \<in> set [0..<?L]. ex = k + 1)"
    by blast
  from assms(1) row have rne: "softmax_row row \<noteq> []"
    by (auto simp: well_shaped_def softmax_row_def)
  have "argmax_row (softmax_row row) < length (softmax_row row)"
    using rne by (rule argmax_row_less)
  then have lt: "argmax_row (softmax_row row) < length labels"
    using row assms(3) by (simp add: softmax_row_def)
  from id2label_lookup [OF assms(2) this] assms(4)
  have lk: "dict_get (id2label self) (argmax_row (softmax_row row))
            = Inr (labels ! argmax_row (softmax_row row))" by simp
  have "fast_infer self sentence speed = Inr (labels ! argmax_row (softmax_row row), ex)"
    using c m hl lk argmax_single [OF rne]
    by (simp add: fast_infer_def softmax_def)
  moreover from ex L have "1 \<le> ex \<and> ex \<le> ?L" by auto
  ultimately show ?thesis using lt by auto
qed

section \<open>Properties of training\<close>

text \<open>Unfolding a training run on a concrete world.\<close>

lemmas io_eval =
  return_io_def bind_io_def lift_io_def on_model_def emit_def when_io_def save_model_def
  load_model_def create_optimizer_def backward_step_def report_def evaluate_if_dev_def
  batch_slice_def py_int_def kwargs_get_def Let_def upt_conv_Cons

lemmas train_eval =
  fit_def fine_tuning_backbone_def fine_tuning_epoch_def fine_tuning_step_def
  save_if_better_def self_distillation_def distillation_epoch_def distillation_step_def
  evaluate_def np_mean_def

lemma demo_infer_more:
  "fast_infer demo ''a'' (9/10) = Inr (LStr ''neg'', 1)"
  by (simp add: infer_eval demo_eval)

lemma demo_evaluate:
  "evaluate demo [''a''] [LStr ''pos''] 0 = Inr (1, 2)"
  "evaluate demo [''a''] [LStr ''pos''] (1/2) = Inr (1, 2)"
  "evaluate demo [''a''] [LStr ''pos''] (9/10) = Inr (0, 1)"
  by (simp_all add: evaluate_def np_mean_def demo_infer demo_infer_more)

subsection \<open>Phase 1 without a validation set\<close>

lemma bind_io_raises:
  assumes "\<And>x w'. \<exists>e. fst (f x w') = Inl e"
  shows "\<exists>e. fst (bind_io m f w) = Inl e"
proof (cases "m w")
  case (Pair r w')
  then show ?thesis using assms [of _ w'] by (cases r) (auto simp: bind_io_def)
qed

lemma bind_io_raises_first:
  assumes "\<exists>e. fst (m w) = Inl e"
  shows "\<exists>e. fst (bind_io m f w) = Inl e"
  using assms by (cases "m w") (auto simp: bind_io_def)

lemma evaluate_if_dev_0: "fst (evaluate_if_dev 0 sentences_dev labels_dev speed w) = Inl TypeError"
  by (simp add: evaluate_if_dev_def bind_io_def return_io_def lift_io_def)

text \<open>Without a validation set, an epoch of Phase 1 never completes.\<close>

lemma fine_tuning_epoch_no_dev:
  "\<exists>e. fst (fine_tuning_epoch tr verbose sentences_dev labels_dev batch_size epochs_num
            report_steps model_saving_path 0 steps_num epoch s w) = Inl e"
proof -
  obtain sentences_train labels_train optimizer best_acc
    where s: "s = (sentences_train, labels_train, optimizer, best_acc)"
    by (cases s) auto
  show ?thesis
    unfolding fine_tuning_epoch_def s prod.case Let_def
    by (rule bind_io_raises, simp only: split_paired_all prod.case,
        rule bind_io_raises, simp only: split_paired_all prod.case,
        rule bind_io_raises_first, simp add: evaluate_if_dev_0)
qed

lemma fine_tuning_backbone_no_dev:
  assumes "0 < epochs_num"
  shows "\<exists>e. fst (fine_tuning_backbone tr sentences_train labels_train [] labels_dev batch_size
            learning_rate epochs_num warmup report_steps model_saving_path verbose w) = Inl e"
proof -
  from assms have up: "[0..<nat epochs_num] = 0 # [1..<nat epochs_num]"
    by (simp add: upt_conv_Cons)
  show ?thesis
    unfolding fine_tuning_backbone_def Let_def
  proof (rule bind_io_raises)
    fix x :: unit and w'
    show "\<exists>e. fst ((if batch_size = 0 then lift_io (Inl ZeroDivisionError)
        else bind_io (create_optimizer tr learning_rate warmup
              (py_int (real_of_int (int (length sentences_train) * epochs_num)
                 / real_of_int batch_size) + 1))
             (\<lambda>optimizer. bind_io
                (for_loop (fine_tuning_epoch tr verbose [] labels_dev batch_size epochs_num
                     report_steps model_saving_path (length []) 
                     (int (length sentences_train) div batch_size))
                   [0..<nat epochs_num] (sentences_train, labels_train, optimizer, 0.0))
                (\<lambda>_. bind_io (when_io verbose (emit (Printed_finish model_saving_path)))
                   (\<lambda>_. load_model model_saving_path)))) w') = Inl e"
    proof (cases "batch_size = 0")
      case True
      then show ?thesis by (simp add: lift_io_def)
    next
      case False
      show ?thesis
        unfolding up for_loop.simps list.size if_not_P [OF False]
        by (rule bind_io_raises, rule bind_io_raises_first,
            rule bind_io_raises_first, rule fine_tuning_epoch_no_dev)
    qed
  qed
qed

text \<open>So \<^verbatim>\<open>fit\<close> called without a validation set raises whenever it is to fine-tune at all.\<close>

lemma fit_no_dev:
  assumes "kw_sentences_dev kwargs = None \<or> kw_sentences_dev kwargs = Some []"
    and "0 < kwargs_get (kw_finetuning_epochs_num kwargs) 5"
  shows "\<exists>e. fst (fit tr sentences_train labels_train verbose kwargs w) = Inl e"
proof -
  from assms(1) have d: "kwargs_get (kw_sentences_dev kwargs) [] = []"
    by (auto simp: kwargs_get_def)
  show ?thesis
    unfolding fit_def Let_def d
    by (rule bind_io_raises, rule bind_io_raises_first,
        rule fine_tuning_backbone_no_dev, rule assms(2))
qed

text \<open>
  C6. After every epoch of Phase 1 the accuracy is evaluated on the validation set if
  there is one, else on the training set, and the epoch completes. With no validation
  set the statement \<^verbatim>\<open>dev_acc, _ = ... if dev_num > 0 else 0.0\<close> unpacks the float
  \<^verbatim>\<open>0.0\<close>: \<^verbatim>\<open>fit\<close> with its default arguments raises \<^verbatim>\<open>TypeError\<close> in the first epoch.
\<close>

theorem fit_without_dev_set_raises:
  "fst (fit demo_trainer [''a''] [LStr ''pos''] True no_kwargs demo_world) = Inl TypeError"
  by (simp add: train_eval io_eval demo_trainer_def demo_world_def no_kwargs_def demo_infer)

subsection \<open>Checkpoints\<close>

lemma load_head_own [simp]: "load_head c (head_state c) = c"
  by (simp add: load_head_def head_state_def)

lemma map2_load_head_own: "map2 load_head cs (map head_state cs) = cs"
  by (induction cs) simp_all

lemma load_state_dict_own [simp]: "load_state_dict self (state_dict self) = self"
  by (simp add: load_state_dict_def state_dict_def map2_load_head_own)

subsection \<open>Evaluation during self-distillation\<close>

text \<open>A complete run of \<^verbatim>\<open>fit\<close> and everything it does to the outside.\<close>

lemma demo_fit_log:
  "fst (fit demo_trainer [''a''] [LStr ''pos''] True demo_kwargs demo_world) = Inr ()"
  "log (snd (fit demo_trainer [''a''] [LStr ''pos''] True demo_kwargs demo_world)) =
     [Printed_training, Printed_fine_tuning 1, Created_AdamW (1 / 50000),
      Created_schedule (1 / 10) 1, Printed_fine_tuning_eval 1 1 1 1,
      Printed_saving 1 0 ''/tmp/FastBERT_tmp.bin'', Saved ''/tmp/FastBERT_tmp.bin'',
      Printed_finish ''/tmp/FastBERT_tmp.bin'', Loaded ''/tmp/FastBERT_tmp.bin'',
      Printed_distilling 1, Created_AdamW (1 / 5000), Created_schedule (1 / 10) 1,
      Printed_distilling_eval 1 1 1 2, Saved ''/tmp/FastBERT_tmp.bin'',
      Printed_distilling_saving ''/tmp/FastBERT_tmp.bin'', Saved ''/tmp/FastBERT_tmp.bin'',
      Printed_saved ''/tmp/FastBERT_tmp.bin'']"
  by (simp_all add: train_eval io_eval demo_trainer_def demo_world_def demo_kwargs_def no_kwargs_def demo_infer)

text \<open>The \<^verbatim>\<open>dev_speed\<close> argument is never read: any two values give the same run.\<close>

lemma distillation_epoch_ignores_dev_speed:
  "distillation_epoch tr verbose sentences_dev labels_dev dev_speed batch_size epochs_num
       report_steps model_saving_path dev_num steps_num
   = distillation_epoch tr verbose sentences_dev labels_dev dev_speed' batch_size epochs_num
       report_steps model_saving_path dev_num steps_num"
  by (rule ext) (simp add: distillation_epoch_def)

lemma self_distillation_ignores_dev_speed:
  "self_distillation tr sentences_train batch_size learning_rate epochs_num warmup report_steps
       model_saving_path sentences_dev labels_dev dev_speed verbose
   = self_distillation tr sentences_train batch_size learning_rate epochs_num warmup report_steps
       model_saving_path sentences_dev labels_dev dev_speed' verbose"
  unfolding self_distillation_def
  by (subst distillation_epoch_ignores_dev_speed [of _ _ _ _ dev_speed _ _ _ _ _ _ dev_speed'])
     (rule refl)

text \<open>
  C5. After every epoch of Phase 2, with a validation set, the model is evaluated at the
  caller's \<^verbatim>\<open>dev_speed\<close>. In the run above \<^verbatim>\<open>dev_speed\<close> is 0.9, where the model scores
  accuracy 0 with 1 executed layer on the validation set; the epoch reports accuracy 1
  and 2 layers, the result of the evaluation at the fixed speed 0.5.
\<close>

theorem distillation_evaluates_at_half_speed:
  "kw_dev_speed demo_kwargs = Some (9 / 10)
   \<and> kw_sentences_dev demo_kwargs = Some [''a'']
   \<and> kw_labels_dev demo_kwargs = Some [LStr ''pos'']
   \<and> filter (\<lambda>ev. \<exists>a b c d. ev = Printed_distilling_eval a b c d)
         (log (snd (fit demo_trainer [''a''] [LStr ''pos''] True demo_kwargs demo_world)))
       = [Printed_distilling_eval 1 1 1 2]
   \<and> model (snd (fit demo_trainer [''a''] [LStr ''pos''] True demo_kwargs demo_world)) = demo
   \<and> evaluate demo [''a''] [LStr ''pos''] (9 / 10) = Inr (0, 1)
   \<and> evaluate demo [''a''] [LStr ''pos''] (1 / 2) = Inr (1, 2)"
proof -
  have "model (snd (fit demo_trainer [''a''] [LStr ''pos''] True demo_kwargs demo_world)) = demo"
    by (simp add: train_eval io_eval demo_trainer_def demo_world_def demo_kwargs_def
        no_kwargs_def demo_infer)
  then show ?thesis
    by (simp add: demo_fit_log demo_evaluate) (simp add: demo_kwargs_def)
qed

subsection \<open>Frame lemmas for training runs\<close>

lemma preservesD: "preserves obs m \<Longrightarrow> obs (snd (m w)) = obs w"
  by (simp add: preserves_def)

lemma preserves_return [simp]: "preserves obs (return_io x)"
  and preserves_lift [simp]: "preserves obs (lift_io r)"
  and preserves_on_model [simp]: "preserves obs (on_model f)"
  by (simp_all add: preserves_def return_io_def lift_io_def on_model_def)

lemma preserves_bind:
  assumes "preserves obs m" and "\<And>x. preserves obs (f x)"
  shows "preserves obs (bind_io m f)"
  unfolding preserves_def
proof
  fix w
  obtain r w' where m: "m w = (r, w')" by (cases "m w")
  with assms(1) have "obs w' = obs w" by (auto simp: preserves_def dest: spec [of _ w])
  with m assms(2) show "obs (snd (bind_io m f w)) = obs w"
    by (cases r) (auto simp: bind_io_def preserves_def)
qed

lemma preserves_for_loop:
  assumes "\<And>x s. preserves obs (body x s)"
  shows "preserves obs (for_loop body xs s)"
  by (induction xs arbitrary: s) (auto intro: preserves_bind assms)

lemma preserves_when:
  "preserves obs m \<Longrightarrow> preserves obs (when_io b m)"
  by (simp add: when_io_def)

lemma preserves_if:
  "preserves obs m \<Longrightarrow> preserves obs m' \<Longrightarrow> preserves obs (if b then m else m')"
  by simp

lemma preserves_evaluate_if_dev [simp]:
  "preserves obs (evaluate_if_dev dev_num sentences_dev labels_dev speed)"
  unfolding evaluate_if_dev_def
  by (intro preserves_bind preserves_if) simp_all

text \<open>What does not touch the log.\<close>

lemma preserves_log_backward_step:
  "preserves (\<lambda>w. f (log w)) (backward_step tr optimizer loss_of)"
  by (simp add: preserves_def backward_step_def Let_def split_beta)

lemma preserves_log_draw:
  "preserves (\<lambda>w. f (log w)) (\<lambda>w. (Inr (g w), w\<lparr>rng := h w\<rparr>))"
  by (simp add: preserves_def)

text \<open>The learning rates: only \<^verbatim>\<open>create_optimizer\<close> adds one.\<close>

lemma learning_rates_emit:
  "created_lr ev = [] \<Longrightarrow> preserves learning_rates (emit ev)"
  by (simp add: preserves_def emit_def learning_rates_def)

lemma learning_rates_save_load:
  "preserves learning_rates (save_model path)" "preserves learning_rates (load_model path)"
  by (auto simp: preserves_def save_model_def load_model_def learning_rates_def
      split: option.splits)

lemma learning_rates_backward_step:
  "preserves learning_rates (backward_step tr optimizer loss_of)"
  using preserves_log_backward_step [of "\<lambda>l. concat (map created_lr l)"]
  by (simp add: learning_rates_def [abs_def])

lemma learning_rates_draw:
  "preserves learning_rates (\<lambda>w. (Inr (g w), w\<lparr>rng := h w\<rparr>))"
  by (simp add: preserves_def learning_rates_def)

lemma learning_rates_report:
  assumes "\<And>x. created_lr (msg x) = []"
  shows "preserves learning_rates (report verbose msg step report_steps report_loss l)"
  unfolding report_def Let_def
  by (intro preserves_if preserves_bind preserves_when learning_rates_emit assms) simp_all

lemma learning_rates_save_if_better:
  "preserves learning_rates (save_if_better verbose path acc best_acc)"
  unfolding save_if_better_def
  by (intro preserves_if preserves_bind preserves_when learning_rates_emit
      learning_rates_save_load) simp_all

lemma learning_rates_fine_tuning_epoch:
  "preserves learning_rates (fine_tuning_epoch tr verbose sentences_dev labels_dev batch_size
      epochs_num report_steps model_saving_path dev_num steps_num epoch s)"
  unfolding fine_tuning_epoch_def fine_tuning_step_def Let_def split_def
  by (intro preserves_bind preserves_for_loop preserves_if preserves_when
      learning_rates_emit learning_rates_report learning_rates_backward_step
      learning_rates_draw learning_rates_save_if_better) simp_all

lemma learning_rates_distillation_epoch:
  "preserves learning_rates (distillation_epoch tr verbose sentences_dev labels_dev dev_speed
      batch_size epochs_num report_steps model_saving_path dev_num steps_num epoch s)"
  unfolding distillation_epoch_def distillation_step_def Let_def split_def
  by (intro preserves_bind preserves_for_loop preserves_if preserves_when
      learning_rates_emit learning_rates_report learning_rates_backward_step
      learning_rates_draw learning_rates_save_load) simp_all

subsection \<open>The learning rates of the two phases\<close>

lemma bind_io_Inr: "m w = (Inr x, w') \<Longrightarrow> bind_io m f w = f x w'"
  and bind_io_Inl: "m w = (Inl e, w') \<Longrightarrow> bind_io m f w = (Inl e, w')"
  by (simp_all add: bind_io_def)

lemma when_emit_result:
  "\<exists>w'. when_io verbose (emit ev) w = (Inr (), w')
     \<and> (created_lr ev = [] \<longrightarrow> learning_rates w' = learning_rates w)"
  by (simp add: when_io_def emit_def return_io_def learning_rates_def)

lemma create_optimizer_result:
  "\<exists>optimizer w'. create_optimizer tr learning_rate warmup train_steps w = (Inr optimizer, w')
     \<and> learning_rates w' = learning_rates w @ [learning_rate]"
  by (simp add: create_optimizer_def bind_io_def emit_def return_io_def learning_rates_def Let_def)

lemma fine_tuning_rest_learning_rates:
  "preserves learning_rates
     (bind_io (for_loop (fine_tuning_epoch tr verbose sentences_dev labels_dev batch_size
                  epochs_num report_steps path dev_num steps_num) xs s)
        (\<lambda>_. bind_io (when_io verbose (emit (Printed_finish path))) (\<lambda>_. load_model path)))"
  by (intro preserves_bind preserves_for_loop preserves_when learning_rates_emit
      learning_rates_fine_tuning_epoch learning_rates_save_load) simp_all

lemma fine_tuning_backbone_learning_rates:
  "learning_rates (snd (fine_tuning_backbone tr sentences_train labels_train sentences_dev
       labels_dev batch_size learning_rate epochs_num warmup report_steps model_saving_path
       verbose w))
   = learning_rates w @ (if batch_size = 0 then [] else [learning_rate])"
proof -
  from when_emit_result [of verbose "Printed_fine_tuning epochs_num" w] obtain w0 where
    w0: "when_io verbose (emit (Printed_fine_tuning epochs_num)) w = (Inr (), w0)"
    and l0: "learning_rates w0 = learning_rates w" by auto
  note b0 = bind_io_Inr [where m = "when_io verbose (emit (Printed_fine_tuning epochs_num))"
      and w = w, OF w0]
  show ?thesis
  proof (cases "batch_size = 0")
    case True
    show ?thesis
      unfolding fine_tuning_backbone_def Let_def b0 if_P [OF True]
      by (simp add: lift_io_def l0 True)
  next
    case False
    let ?ts = "py_int (real_of_int (int (length sentences_train) * epochs_num)
                 / real_of_int batch_size) + 1"
    from create_optimizer_result [of tr learning_rate warmup ?ts w0] obtain optimizer w1 where
      c: "create_optimizer tr learning_rate warmup ?ts w0 = (Inr optimizer, w1)"
      and l1: "learning_rates w1 = learning_rates w0 @ [learning_rate]" by blast
    note b1 = bind_io_Inr [where m = "create_optimizer tr learning_rate warmup ?ts"
        and w = w0, OF c]
    show ?thesis
      unfolding fine_tuning_backbone_def Let_def b0 if_not_P [OF False]
        b1 preservesD [OF fine_tuning_rest_learning_rates]
      by (simp add: l0 l1)
  qed
qed

lemma fine_tuning_backbone_returns:
  assumes "fst (fine_tuning_backbone tr sentences_train labels_train sentences_dev
       labels_dev batch_size learning_rate epochs_num warmup report_steps model_saving_path
       verbose w) = Inr ()"
  shows "batch_size \<noteq> 0"
proof
  assume z: "batch_size = 0"
  from when_emit_result [of verbose "Printed_fine_tuning epochs_num" w] obtain w0 where
    w0: "when_io verbose (emit (Printed_fine_tuning epochs_num)) w = (Inr (), w0)" by auto
  note b0 = bind_io_Inr [where m = "when_io verbose (emit (Printed_fine_tuning epochs_num))"
      and w = w, OF w0]
  from assms show False
    unfolding fine_tuning_backbone_def Let_def b0 if_P [OF z]
    by (simp add: lift_io_def)
qed

lemma distillation_rest_learning_rates:
  "preserves learning_rates
     (bind_io (for_loop (distillation_epoch tr verbose sentences_dev labels_dev dev_speed
                  batch_size epochs_num report_steps path dev_num steps_num) xs s)
        (\<lambda>_. return_io ()))"
  by (intro preserves_bind preserves_for_loop learning_rates_distillation_epoch) simp_all

lemma self_distillation_learning_rates:
  "learning_rates (snd (self_distillation tr sentences_train batch_size learning_rate epochs_num
       warmup report_steps model_saving_path sentences_dev labels_dev dev_speed verbose w))
   = learning_rates w @ (if batch_size = 0 then [] else [learning_rate])"
proof -
  from when_emit_result [of verbose "Printed_distilling epochs_num" w] obtain w0 where
    w0: "when_io verbose (emit (Printed_distilling epochs_num)) w = (Inr (), w0)"
    and l0: "learning_rates w0 = learning_rates w" by auto
  note b0 = bind_io_Inr [where m = "when_io verbose (emit (Printed_distilling epochs_num))"
      and w = w, OF w0]
  show ?thesis
  proof (cases "batch_size = 0")
    case True
    show ?thesis
      unfolding self_distillation_def Let_def b0 if_P [OF True]
      by (simp add: lift_io_def l0 True)
  next
    case False
    let ?ts = "py_int (real_of_int (int (length sentences_train) * epochs_num)
                 / real_of_int batch_size) + 1"
    from create_optimizer_result [of tr learning_rate warmup ?ts w0] obtain optimizer w1 where
      c: "create_optimizer tr learning_rate warmup ?ts w0 = (Inr optimizer, w1)"
      and l1: "learning_rates w1 = learning_rates w0 @ [learning_rate]" by blast
    note b1 = bind_io_Inr [where m = "create_optimizer tr learning_rate warmup ?ts"
        and w = w0, OF c]
    show ?thesis
      unfolding self_distillation_def Let_def b0 if_not_P [OF False]
        b1 preservesD [OF distillation_rest_learning_rates]
      by (simp add: l0 l1)
  qed
qed

lemma fit_tail_learning_rates:
  "preserves learning_rates
     (bind_io (save_model path) (\<lambda>_. when_io verbose (emit (Printed_saved path))))"
  by (intro preserves_bind preserves_when learning_rates_emit learning_rates_save_load) simp_all

text \<open>
  C10. For every invocation of \<^verbatim>\<open>fit\<close>, the learning rates of the optimizers it creates
  are, in order, at most the caller's \<^verbatim>\<open>learning_rate\<close> (default 2e-5) for Phase 1 and
  exactly 10 times that value for Phase 2; both are created whenever \<^verbatim>\<open>fit\<close> returns.
\<close>

theorem phase_2_learning_rate:
  fixes tr :: "'o trainer" and kwargs :: kwargs and w :: world
    and sentences_train :: "string list" and labels_train :: "label list" and verbose :: bool
  defines "lr \<equiv> kwargs_get (kw_learning_rate kwargs) (2 / 100000)"
  defines "r \<equiv> fit tr sentences_train labels_train verbose kwargs w"
  shows "\<exists>created. learning_rates (snd r) = learning_rates w @ created
     \<and> (created = [] \<or> created = [lr] \<or> created = [lr, lr * 10])
     \<and> (fst r = Inr () \<longrightarrow> created = [lr, lr * 10])"
proof -
  let ?bs = "kwargs_get (kw_batch_size kwargs) 16"
  let ?path = "kwargs_get (kw_model_saving_path kwargs) (tmp_path tr)"
  let ?P1 = "fine_tuning_backbone tr sentences_train labels_train
      (kwargs_get (kw_sentences_dev kwargs) []) (kwargs_get (kw_labels_dev kwargs) [])
      ?bs lr (kwargs_get (kw_finetuning_epochs_num kwargs) 5)
      (kwargs_get (kw_warmup kwargs) (1 / 10)) (kwargs_get (kw_report_steps kwargs) 100)
      ?path verbose"
  let ?P2 = "self_distillation tr sentences_train ?bs (lr * 10)
      (kwargs_get (kw_distilling_epochs_num kwargs) 10)
      (kwargs_get (kw_warmup kwargs) (1 / 10)) (kwargs_get (kw_report_steps kwargs) 100)
      ?path (kwargs_get (kw_sentences_dev kwargs) []) (kwargs_get (kw_labels_dev kwargs) [])
      (kwargs_get (kw_dev_speed kwargs) (1 / 2)) verbose"
  let ?tail = "bind_io (save_model ?path) (\<lambda>_. when_io verbose (emit (Printed_saved ?path)))"
  from when_emit_result [of verbose Printed_training w] obtain w0 where
    w0: "when_io verbose (emit Printed_training) w = (Inr (), w0)"
    and l0: "learning_rates w0 = learning_rates w" by auto
  note b0 = bind_io_Inr [where m = "when_io verbose (emit Printed_training)" and w = w, OF w0]
  have r: "r = bind_io ?P1 (\<lambda>_. bind_io ?P2 (\<lambda>_. ?tail)) w0"
    unfolding r_def fit_def Let_def b0 lr_def ..
  obtain r1 w1 where p1: "?P1 w0 = (r1, w1)" by (cases "?P1 w0")
  have l1: "learning_rates w1 = learning_rates w @ (if ?bs = 0 then [] else [lr])"
    using fine_tuning_backbone_learning_rates [of tr sentences_train labels_train
        "kwargs_get (kw_sentences_dev kwargs) []" "kwargs_get (kw_labels_dev kwargs) []"
        ?bs lr "kwargs_get (kw_finetuning_epochs_num kwargs) 5"
        "kwargs_get (kw_warmup kwargs) (1 / 10)" "kwargs_get (kw_report_steps kwargs) 100"
        ?path verbose w0]
    by (simp add: p1 l0)
  show ?thesis
  proof (cases r1)
    case (Inl e)
    with p1 have "r = (Inl e, w1)" unfolding r by (simp add: bind_io_def)
    with l1 show ?thesis by auto
  next
    case (Inr u)
    with p1 have bs: "?bs \<noteq> 0"
      using fine_tuning_backbone_returns [of tr sentences_train labels_train
        "kwargs_get (kw_sentences_dev kwargs) []" "kwargs_get (kw_labels_dev kwargs) []"
        ?bs lr "kwargs_get (kw_finetuning_epochs_num kwargs) 5"
        "kwargs_get (kw_warmup kwargs) (1 / 10)" "kwargs_get (kw_report_steps kwargs) 100"
        ?path verbose w0]
      by simp
    obtain r2 w2 where p2: "?P2 w1 = (r2, w2)" by (cases "?P2 w1")
    have l2: "learning_rates w2 = learning_rates w @ [lr, lr * 10]"
      using self_distillation_learning_rates [of tr sentences_train ?bs "lr * 10"
        "kwargs_get (kw_distilling_epochs_num kwargs) 10"
        "kwargs_get (kw_warmup kwargs) (1 / 10)" "kwargs_get (kw_report_steps kwargs) 100"
        ?path "kwargs_get (kw_sentences_dev kwargs) []" "kwargs_get (kw_labels_dev kwargs) []"
        "kwargs_get (kw_dev_speed kwargs) (1 / 2)" verbose w1]
      by (simp add: p2 l1 bs)
    have r': "r = bind_io ?P2 (\<lambda>_. ?tail) w1"
      unfolding r using p1 Inr by (simp add: bind_io_def)
    show ?thesis
    proof (cases r2)
      case (Inl e)
      with p2 have "r = (Inl e, w2)" unfolding r' by (simp add: bind_io_def)
      with l2 show ?thesis by auto
    next
      case (Inr u')
      with p2 have "r = ?tail w2" unfolding r' by (simp add: bind_io_def)
      with preservesD [OF fit_tail_learning_rates, of ?path verbose w2] l2
      have "learning_rates (snd r) = learning_rates w @ [lr, lr * 10]" by simp
      then show ?thesis by auto
    qed
  qed
qed

theorem phase_2_learning_rate_witness:
  "fst (fit demo_trainer [''a''] [LStr ''pos''] True demo_kwargs demo_world) = Inr ()
   \<and> kwargs_get (kw_learning_rate demo_kwargs) (2 / 100000) = 2 / 100000
   \<and> learning_rates (snd (fit demo_trainer [''a''] [LStr ''pos''] True demo_kwargs demo_world))
       = [2 / 100000, 2 / 100000 * 10]"
proof -
  have lr: "kwargs_get (kw_learning_rate demo_kwargs) (2 / 100000) = 2 / 100000"
    by (simp add: demo_kwargs_def no_kwargs_def kwargs_get_def)
  have l0: "learning_rates demo_world = []"
    by (simp add: learning_rates_def demo_world_def)
  from phase_2_learning_rate [where tr = demo_trainer and kwargs = demo_kwargs
      and w = demo_world and sentences_train = "[''a'']" and labels_train = "[LStr ''pos'']"
      and verbose = True]
  show ?thesis
    unfolding lr l0 by (auto simp: demo_fit_log)
qed

subsection \<open>The checkpoint policy of Phase 1\<close>

lemma bind_io_eq_Inr:
  "bind_io m f w = (Inr y, w') \<longleftrightarrow> (\<exists>x w1. m w = (Inr x, w1) \<and> f x w1 = (Inr y, w'))"
  by (cases "m w") (auto simp: bind_io_def split: sum.splits)

text \<open>The optimisation steps change the model only: no file is written, nothing is saved.\<close>

lemma files_saves_emit:
  "\<not> is_save ev \<Longrightarrow> preserves (\<lambda>w. (files w, saves w)) (emit ev)"
  by (simp add: preserves_def emit_def saves_def)

lemma files_saves_backward_step:
  "preserves (\<lambda>w. (files w, saves w)) (backward_step tr optimizer loss_of)"
  by (simp add: preserves_def backward_step_def Let_def split_beta saves_def)

lemma files_saves_report:
  assumes "\<And>x. \<not> is_save (msg x)"
  shows "preserves (\<lambda>w. (files w, saves w)) (report verbose msg step report_steps report_loss l)"
  unfolding report_def Let_def
  by (intro preserves_if preserves_bind preserves_when files_saves_emit assms) simp_all

lemma files_saves_fine_tuning_steps:
  "preserves (\<lambda>w. (files w, saves w))
     (for_loop (fine_tuning_step tr verbose batch_size report_steps epoch epochs_num steps_num
                  sentences_train labels_train) steps s)"
  unfolding fine_tuning_step_def Let_def split_def
  by (intro preserves_for_loop preserves_bind files_saves_report files_saves_backward_step)
     simp_all

lemma evaluate_if_dev_Inr:
  assumes "evaluate_if_dev dev_num sentences_dev labels_dev speed w = (Inr (a, ave), w')"
  shows "w' = w \<and> 0 < dev_num \<and> evaluate (model w) sentences_dev labels_dev speed = Inr (a, ave)"
  using assms
  by (cases "evaluate (model w) sentences_dev labels_dev speed")
     (auto simp: evaluate_if_dev_def bind_io_def on_model_def return_io_def lift_io_def
       split: if_splits)

lemma on_model_Inr: "on_model f w = (Inr x, w') \<Longrightarrow> w' = w \<and> f (model w) = Inr x"
  by (auto simp: on_model_def)

lemma when_emit_Inr:
  assumes "when_io verbose (emit ev) w = (Inr u, w')" and "\<not> is_save ev"
  shows "model w' = model w \<and> files w' = files w \<and> saves w' = saves w"
  using assms by (auto simp: when_io_def emit_def return_io_def saves_def split: if_splits)

text \<open>The checkpoint decision of one epoch.\<close>

lemma save_if_better_Inr:
  assumes "save_if_better verbose path acc best_acc w = (Inr best_acc', w')"
  shows "model w' = model w
     \<and> (if acc > best_acc
         then best_acc' = acc \<and> saves w' = saves w + 1
              \<and> files w' = (files w)(path \<mapsto> state_dict (model w))
         else best_acc' = best_acc \<and> saves w' = saves w \<and> files w' = files w)"
  using assms
  by (auto simp: save_if_better_def bind_io_def when_io_def emit_def return_io_def
      save_model_def saves_def split: if_splits)

lemma fine_tuning_epoch_Inr:
  assumes run: "fine_tuning_epoch tr verbose sentences_dev labels_dev batch_size epochs_num
            report_steps path dev_num steps_num epoch
            (sentences_train, labels_train, optimizer, best_acc) w
          = (Inr (sentences_train', labels_train', optimizer', best_acc'), w')"
  shows "0 < dev_num \<and> (\<exists>acc ave.
      evaluate (model w') sentences_dev labels_dev 0 = Inr (acc, ave)
    \<and> (if acc > best_acc
         then best_acc' = acc \<and> saves w' = saves w + 1
              \<and> files w' = (files w)(path \<mapsto> state_dict (model w'))
         else best_acc' = best_acc \<and> saves w' = saves w \<and> files w' = files w))"
proof -
  from run obtain st lt w1 opt1 rl w2 acc ave w3 train_acc ave' w4 u w5 where
    sh: "(st, lt) = shuffle_pairs tr (rng w) sentences_train labels_train"
      "w1 = w\<lparr>rng := rng w + 1\<rparr>"
    and steps: "for_loop (fine_tuning_step tr verbose batch_size report_steps (int epoch)
                  epochs_num steps_num st lt) [0..<nat steps_num] (optimizer, 0.0) w1
                = (Inr (opt1, rl), w2)"
    and dev: "evaluate_if_dev dev_num sentences_dev labels_dev 0.0 w2 = (Inr (acc, ave), w3)"
    and train: "on_model (\<lambda>self. evaluate self st lt 0.0) w3 = (Inr (train_acc, ave'), w4)"
    and pr: "when_io verbose (emit (Printed_fine_tuning_eval (int epoch + 1) epochs_num
                  train_acc acc)) w4 = (Inr u, w5)"
    and dec: "(if dev_num > 0 then save_if_better verbose path acc best_acc
               else save_if_better verbose path train_acc best_acc) w5
              = (Inr best_acc', w')"
    unfolding fine_tuning_epoch_def prod.case Let_def
    by (auto simp: bind_io_eq_Inr return_io_def split: prod.splits)
  from evaluate_if_dev_Inr [OF dev] have w3: "w3 = w2" and dn: "0 < dev_num"
    and ev: "evaluate (model w2) sentences_dev labels_dev 0 = Inr (acc, ave)" by simp_all
  from on_model_Inr [OF train] have w4: "w4 = w3" by simp
  from when_emit_Inr [OF pr] have w5: "model w5 = model w2" "files w5 = files w2"
    "saves w5 = saves w2" by (simp_all add: w3 w4)
  from preservesD [OF files_saves_fine_tuning_steps, of tr verbose batch_size report_steps
      "int epoch" epochs_num steps_num st lt "[0..<nat steps_num]" "(optimizer, 0.0)" w1] steps sh(2)
  have w2: "files w2 = files w" "saves w2 = saves w" by (simp_all add: saves_def)
  from dec dn have "save_if_better verbose path acc best_acc w5 = (Inr best_acc', w')" by simp
  from save_if_better_Inr [OF this] w5 w2 ev dn show ?thesis
    by (auto split: if_splits)
qed

lemma bind_io_assoc:
  "bind_io (bind_io m f) g = bind_io m (\<lambda>x. bind_io (f x) g)"
  by (rule ext) (auto simp: bind_io_def split: prod.splits sum.splits)

lemma bind_io_return [simp]: "bind_io (return_io x) f = f x"
  by (rule ext) (simp add: bind_io_def return_io_def)

lemma bind_io_return_right [simp]: "bind_io m return_io = m"
  by (rule ext) (auto simp: bind_io_def return_io_def split: prod.splits sum.splits)

lemma for_loop_Nil: "for_loop body [] = return_io"
  by (rule ext) simp

lemma for_loop_append:
  "for_loop body (xs @ ys) = (\<lambda>s. bind_io (for_loop body xs s) (for_loop body ys))"
proof (induction xs)
  case Nil
  show ?case by (rule ext) simp
next
  case (Cons x xs)
  show ?case by (rule ext) (simp add: Cons.IH bind_io_assoc)
qed

lemma for_loop_snoc:
  "for_loop body (xs @ [x]) s = bind_io (for_loop body xs s) (body x)"
proof -
  have "for_loop body [x] = body x"
    by (rule ext) (simp add: for_loop_Nil)
  then show ?thesis by (simp add: for_loop_append)
qed

lemma Max_snoc:
  fixes a :: real
  shows "Max (set (0 # accs @ [a])) = max a (Max (set (0 # accs)))"
proof -
  have "set (0 # accs @ [a]) = insert a (set (0 # accs))" by auto
  then show ?thesis by (simp only: Max_insert [OF List.finite_set] ) simp
qed

lemma fine_tuning_loop:
  assumes "for_loop (fine_tuning_epoch tr verbose sentences_dev labels_dev batch_size epochs_num
              report_steps path dev_num steps_num) [0..<n]
              (sentences_train, labels_train, optimizer, 0) w0 = (Inr s, wn)"
  shows "\<exists>ws accs. length ws = n + 1 \<and> length accs = n \<and> ws ! 0 = w0 \<and> ws ! n = wn
     \<and> snd (snd (snd s)) = Max (set (0 # accs))
     \<and> (\<forall>k<n. checkpoint_rule path sentences_dev labels_dev (Max (set (0 # take k accs)))
                  (accs ! k) (ws ! k) (ws ! (k + 1)))"
  using assms
proof (induction n arbitrary: s wn)
  case 0
  then show ?case
    by (intro exI [of _ "[w0]"] exI [of _ "[]"]) (auto simp: return_io_def)
next
  case (Suc n)
  let ?body = "fine_tuning_epoch tr verbose sentences_dev labels_dev batch_size epochs_num
              report_steps path dev_num steps_num"
  from Suc.prems obtain s1 w1 where
    l: "for_loop ?body [0..<n] (sentences_train, labels_train, optimizer, 0) w0 = (Inr s1, w1)"
    and b: "?body n s1 w1 = (Inr s, wn)"
    by (auto simp: for_loop_snoc bind_io_eq_Inr)
  from Suc.IH [OF l] obtain ws accs where
    IH: "length ws = n + 1" "length accs = n" "ws ! 0 = w0" "ws ! n = w1"
      "snd (snd (snd s1)) = Max (set (0 # accs))"
      "\<forall>k<n. checkpoint_rule path sentences_dev labels_dev (Max (set (0 # take k accs)))
                  (accs ! k) (ws ! k) (ws ! (k + 1))"
    by blast
  obtain st lt opt best where s1: "s1 = (st, lt, opt, best)" by (cases s1) auto
  obtain st' lt' opt' best' where s: "s = (st', lt', opt', best')" by (cases s) auto
  from fine_tuning_epoch_Inr [OF b [unfolded s1 s]] obtain acc ave where
    ev: "evaluate (model wn) sentences_dev labels_dev 0 = Inr (acc, ave)"
    and d: "if acc > best
         then best' = acc \<and> saves wn = saves w1 + 1
              \<and> files wn = (files w1)(path \<mapsto> state_dict (model wn))
         else best' = best \<and> saves wn = saves w1 \<and> files wn = files w1"
    by blast
  from IH(5) s1 have best: "best = Max (set (0 # accs))" by simp
  let ?ws = "ws @ [wn]" and ?accs = "accs @ [acc]"
  have 1: "length ?ws = Suc n + 1" "length ?accs = Suc n" "?ws ! 0 = w0" "?ws ! Suc n = wn"
    using IH(1,2,3) by (simp_all add: nth_append)
  from d have "best' = max acc best" by (auto simp: max_def split: if_splits)
  then have 2: "snd (snd (snd s)) = Max (set (0 # ?accs))"
    unfolding s Max_snoc best by simp
  have 3: "checkpoint_rule path sentences_dev labels_dev (Max (set (0 # take k ?accs)))
                  (?accs ! k) (?ws ! k) (?ws ! (k + 1))" if "k < Suc n" for k
  proof (cases "k < n")
    case True
    with IH(1,2,6) show ?thesis by (simp add: nth_append)
  next
    case False
    with that have k: "k = n" by simp
    show ?thesis
      unfolding k using IH(1,2,4) ev d best
      by (auto simp: checkpoint_rule_def nth_append split: if_splits)
  qed
  from 1 2 3 show ?case by blast
qed

text \<open>After the last epoch that saved, the file at the path stays as that epoch wrote it.\<close>

lemma files_after_best:
  assumes rule: "\<forall>k<n. checkpoint_rule path sentences_dev labels_dev
                  (Max (set (0 # take k accs))) (accs ! k) (ws ! k) (ws ! (k + 1))"
    and len: "length accs = n"
    and k: "k < n" "accs ! k > Max (set (0 # take k accs))" "accs ! k = Max (set accs)"
    and j: "k < j" "j \<le> n"
  shows "files (ws ! j) path = Some (state_dict (model (ws ! (k + 1))))"
  using j
proof (induction j)
  case 0
  then show ?case by simp
next
  case (Suc j)
  show ?case
  proof (cases "j = k")
    case True
    with rule k(1,2) show ?thesis by (auto simp: checkpoint_rule_def)
  next
    case False
    with Suc.prems have kj: "k < j" "j < n" by simp_all
    with len k(1) have "accs ! k \<in> set (take j accs)"
      by (auto simp: in_set_conv_nth intro!: exI [of _ k])
    then have "accs ! k \<le> Max (set (0 # take j accs))" by (intro Max_ge) auto
    moreover from kj len have "accs ! j \<le> Max (set accs)" by (intro Max_ge) auto
    ultimately have "\<not> accs ! j > Max (set (0 # take j accs))" using k(3) by linarith
    with rule kj have "files (ws ! (j + 1)) = files (ws ! j)"
      by (auto simp: checkpoint_rule_def)
    with Suc.IH kj show ?thesis by simp
  qed
qed

text \<open>If any epoch saved, the first epoch that reached the best accuracy saved.\<close>

lemma best_epoch_saved:
  fixes accs :: "real list"
  assumes len: "length accs = n"
    and some: "k0 < n" "accs ! k0 > Max (set (0 # take k0 accs))"
  shows "\<exists>k<n. accs ! k > Max (set (0 # take k accs)) \<and> accs ! k = Max (set accs)"
proof -
  from some len have ne: "accs \<noteq> []" by auto
  let ?M = "Max (set accs)"
  have "?M \<in> set accs" using ne by (intro Max_in) auto
  then have ex: "\<exists>k. k < n \<and> accs ! k = ?M" using len by (auto simp: in_set_conv_nth)
  define k where "k = (LEAST k. k < n \<and> accs ! k = ?M)"
  from LeastI_ex [OF ex] have k: "k < n" "accs ! k = ?M" by (simp_all add: k_def)
  have before: "accs ! i < ?M" if "i < k" for i
  proof -
    from that k(1) len have "accs ! i \<le> ?M" by (intro Max_ge) auto
    moreover from not_less_Least [of i "\<lambda>k. k < n \<and> accs ! k = ?M"] that k(1)
    have "accs ! i \<noteq> ?M" by (auto simp: k_def)
    ultimately show ?thesis by simp
  qed
  have "0 < accs ! k0"
  proof -
    have "0 \<le> Max (set (0 # take k0 accs))" by (intro Max_ge) auto
    with some(2) show ?thesis by linarith
  qed
  moreover from some(1) len have "accs ! k0 \<le> ?M" by (intro Max_ge) auto
  ultimately have pos: "0 < ?M" by linarith
  have "Max (set (0 # take k accs)) < ?M"
  proof -
    have "x < ?M" if "x \<in> set (0 # take k accs)" for x
      using that pos before k(1) len by (auto simp: in_set_conv_nth)
    then show ?thesis by (subst Max_less_iff) auto
  qed
  with k show ?thesis by auto
qed

lemma create_optimizer_frame:
  "\<exists>optimizer w'. create_optimizer tr learning_rate warmup train_steps w = (Inr optimizer, w')
     \<and> model w' = model w \<and> files w' = files w \<and> saves w' = saves w"
  by (simp add: create_optimizer_def bind_io_def emit_def return_io_def saves_def Let_def)

lemma load_model_Inr:
  assumes "load_model path w = (Inr u, w')"
  shows "\<exists>sd. files w path = Some sd \<and> model w' = load_state_dict (model w) sd"
  using assms by (auto simp: load_model_def split: option.splits)

text \<open>A run of Phase 1 that returns: the loop over the epochs, then the reload.\<close>

lemma fine_tuning_backbone_Inr:
  assumes "fine_tuning_backbone tr sentences_train labels_train sentences_dev labels_dev
             batch_size learning_rate epochs_num warmup report_steps path verbose w
           = (Inr (), w')"
  shows "\<exists>optimizer w0 s wn sd.
       model w0 = model w \<and> files w0 = files w \<and> saves w0 = saves w
     \<and> for_loop (fine_tuning_epoch tr verbose sentences_dev labels_dev batch_size epochs_num
                  report_steps path (length sentences_dev)
                  (int (length sentences_train) div batch_size))
           [0..<nat epochs_num] (sentences_train, labels_train, optimizer, 0) w0 = (Inr s, wn)
     \<and> files wn path = Some sd \<and> model w' = load_state_dict (model wn) sd"
proof -
  let ?ts = "py_int (real_of_int (int (length sentences_train) * epochs_num)
                 / real_of_int batch_size) + 1"
  from assms obtain u0 wa where
    a: "when_io verbose (emit (Printed_fine_tuning epochs_num)) w = (Inr u0, wa)"
    and rest: "(if batch_size = 0 then lift_io (Inl ZeroDivisionError)
        else bind_io (create_optimizer tr learning_rate warmup ?ts)
             (\<lambda>optimizer. bind_io
                (for_loop (fine_tuning_epoch tr verbose sentences_dev labels_dev batch_size
                     epochs_num report_steps path (length sentences_dev)
                     (int (length sentences_train) div batch_size))
                   [0..<nat epochs_num] (sentences_train, labels_train, optimizer, 0.0))
                (\<lambda>_. bind_io (when_io verbose (emit (Printed_finish path)))
                   (\<lambda>_. load_model path)))) wa = (Inr (), w')"
    unfolding fine_tuning_backbone_def Let_def bind_io_eq_Inr by blast
  from when_emit_Inr [OF a] have wa: "model wa = model w" "files wa = files w"
    "saves wa = saves w" by simp_all
  from rest have bs: "batch_size \<noteq> 0" by (auto simp: lift_io_def)
  from rest bs obtain optimizer w0 s wn u1 wb where
    c: "create_optimizer tr learning_rate warmup ?ts wa = (Inr optimizer, w0)"
    and l: "for_loop (fine_tuning_epoch tr verbose sentences_dev labels_dev batch_size
                     epochs_num report_steps path (length sentences_dev)
                     (int (length sentences_train) div batch_size))
                   [0..<nat epochs_num] (sentences_train, labels_train, optimizer, 0) w0
            = (Inr s, wn)"
    and p: "when_io verbose (emit (Printed_finish path)) wn = (Inr u1, wb)"
    and ld: "load_model path wb = (Inr (), w')"
    by (simp add: bind_io_eq_Inr) blast
  from create_optimizer_frame [of tr learning_rate warmup ?ts wa] c
  have w0: "model w0 = model w" "files w0 = files w" "saves w0 = saves w"
    by (auto simp: wa)
  from when_emit_Inr [OF p] have wb: "model wb = model wn" "files wb = files wn" by simp_all
  from load_model_Inr [OF ld] wb obtain sd where
    "files wn path = Some sd" "model w' = load_state_dict (model wn) sd" by auto
  with w0 l show ?thesis by blast
qed

text \<open>
  C8. In a run of Phase 1 that returns, with \<open>n\<close> epochs: there are the worlds
  \<open>ws ! 0, \<dots>, ws ! n\<close> between the epochs and the epochs' accuracies \<open>accs\<close> such that
  every epoch \<open>k\<close> follows the checkpoint rule against the best accuracy seen before it
  (the maximum of 0.0 and the accuracies of the epochs before \<open>k\<close>): it saves exactly when
  its accuracy is strictly greater. If any epoch saved, the model after the phase is the
  reload of the checkpoint written by an epoch whose accuracy is the best of the phase.
\<close>

theorem checkpoint_on_strict_improvement:
  fixes tr :: "'o trainer"
  assumes run: "fine_tuning_backbone tr sentences_train labels_train sentences_dev labels_dev
             batch_size learning_rate epochs_num warmup report_steps path verbose w
           = (Inr (), w')"
  defines "n \<equiv> nat epochs_num"
  shows "\<exists>ws accs. length ws = n + 1 \<and> length accs = n
     \<and> model (ws ! 0) = model w \<and> files (ws ! 0) = files w \<and> saves (ws ! 0) = saves w
     \<and> (\<forall>k<n. checkpoint_rule path sentences_dev labels_dev
                  (Max (set (0 # take k accs))) (accs ! k) (ws ! k) (ws ! (k + 1)))
     \<and> ((\<exists>k<n. accs ! k > Max (set (0 # take k accs))) \<longrightarrow>
          (\<exists>k<n. accs ! k > Max (set (0 # take k accs)) \<and> accs ! k = Max (set accs)
                \<and> model w' = load_state_dict (model (ws ! n))
                                (state_dict (model (ws ! (k + 1))))))"
proof -
  from fine_tuning_backbone_Inr [OF run] obtain optimizer w0 s wn sd where
    w0: "model w0 = model w" "files w0 = files w" "saves w0 = saves w"
    and l: "for_loop (fine_tuning_epoch tr verbose sentences_dev labels_dev batch_size epochs_num
                  report_steps path (length sentences_dev)
                  (int (length sentences_train) div batch_size))
           [0..<n] (sentences_train, labels_train, optimizer, 0) w0 = (Inr s, wn)"
    and sd: "files wn path = Some sd" "model w' = load_state_dict (model wn) sd"
    unfolding n_def by blast
  from fine_tuning_loop [OF l] obtain ws accs where
    t: "length ws = n + 1" "length accs = n" "ws ! 0 = w0" "ws ! n = wn"
    and rule: "\<forall>k<n. checkpoint_rule path sentences_dev labels_dev
                  (Max (set (0 # take k accs))) (accs ! k) (ws ! k) (ws ! (k + 1))"
    by blast
  have "\<exists>k<n. accs ! k > Max (set (0 # take k accs)) \<and> accs ! k = Max (set accs)
                \<and> model w' = load_state_dict (model (ws ! n))
                                (state_dict (model (ws ! (k + 1))))"
    if "\<exists>k<n. accs ! k > Max (set (0 # take k accs))"
  proof -
    from that obtain k0 where "k0 < n" "accs ! k0 > Max (set (0 # take k0 accs))" by blast
    from best_epoch_saved [OF t(2) this] obtain k where
      k: "k < n" "accs ! k > Max (set (0 # take k accs))" "accs ! k = Max (set accs)" by blast
    from files_after_best [OF rule t(2) k, of n] k(1)
    have "files (ws ! n) path = Some (state_dict (model (ws ! (k + 1))))" by simp
    with sd t(4) have "model w' = load_state_dict (model (ws ! n))
                                (state_dict (model (ws ! (k + 1))))" by simp
    with k show ?thesis by blast
  qed
  with t w0 rule show ?thesis by blast
qed

end
